theory Spec2Isabelle
  imports Main "HOL-Library.Word"
begin

section \<open>Values shared by the whole module\<close>

text \<open>
  Exceptions of \<^verbatim>\<open>data_source.py\<close> and of the libraries it calls, as values. A raise is
  \<open>Inl e\<close>, a return is \<open>Inr v\<close>. \<open>RetryError e\<close> is the exception tenacity raises when
  its stop condition is met; it carries the failure of the last attempt.
  \<open>TransportError\<close> stands for the failures of httpx that are neither a timeout nor a
  connection failure.
\<close>

datatype exc =
    TimeoutException
  | ConnectError
  | HTTPStatusError nat
  | TransportError
  | RetryError exc
  | JSONDecodeError
  | ParseError
  | ValidationError
  | TypeError
  | KeyError
  | IndexError
  | RenderError

text \<open>
  Text whose characters are counted by the program (the lunar date, the weekday label) is
  a list of Unicode code points, as a Python \<^verbatim>\<open>str\<close> is. URLs, JSON keys and XML tags are
  \<^typ>\<open>string\<close>.
\<close>

type_synonym ustr = "nat list"

type_synonym bytes = "8 word list"

text \<open>
  A parsed JSON document (what \<^verbatim>\<open>res.json()\<close> returns). An object keeps the items of
  the Python dict; its keys are distinct.
\<close>

datatype json =
    JNull
  | JBool bool
  | JNum int
  | JStr string
  | JArr "json list"
  | JObj "(string \<times> json) list"

text \<open>
  An element of \<^verbatim>\<open>xml.etree.ElementTree\<close>: its tag, its \<^verbatim>\<open>text\<close> attribute (\<^verbatim>\<open>None\<close>
  when the element has no text) and its child elements in document order.
\<close>

datatype xml = Element (tag: string) (text_of: "string option") (children: "xml list")

subsection \<open>Python subscripts\<close>

text \<open>\<^verbatim>\<open>xs[k]\<close> on a list: a negative index counts from the end, out of range raises.\<close>

definition py_index :: "'a list \<Rightarrow> int \<Rightarrow> exc + 'a" where
  "py_index xs k =
     (let len = int (length xs)
      in if 0 \<le> k \<and> k < len then Inr (xs ! nat k)
         else if - len \<le> k \<and> k < 0 then Inr (xs ! nat (len + k))
         else Inl IndexError)"

text \<open>
  \<^verbatim>\<open>x[k]\<close> with an integer \<open>k\<close> on a JSON value: a list and a string are indexed, a dict
  has no integer key, anything else is not subscriptable.
\<close>

definition py_getitem_int :: "json \<Rightarrow> int \<Rightarrow> exc + json" where
  "py_getitem_int x k =
     (case x of
        JArr xs \<Rightarrow> py_index xs k
      | JStr s \<Rightarrow> (case py_index s k of Inl e \<Rightarrow> Inl e | Inr c \<Rightarrow> Inr (JStr [c]))
      | JObj kv \<Rightarrow> Inl KeyError
      | _ \<Rightarrow> Inl TypeError)"

text \<open>\<^verbatim>\<open>x[key]\<close> with a string key: only a dict accepts it.\<close>

definition py_getitem_str :: "json \<Rightarrow> string \<Rightarrow> exc + json" where
  "py_getitem_str x key =
     (case x of
        JObj kv \<Rightarrow> (case map_of kv key of None \<Rightarrow> Inl KeyError | Some v \<Rightarrow> Inr v)
      | _ \<Rightarrow> Inl TypeError)"

text \<open>
  \<^verbatim>\<open>for item in x\<close>: a list yields its elements, a dict its keys, a string its
  characters; nothing else is iterable.
\<close>

definition py_iter :: "json \<Rightarrow> exc + json list" where
  "py_iter x =
     (case x of
        JArr xs \<Rightarrow> Inr xs
      | JObj kv \<Rightarrow> Inr (map (\<lambda>p. JStr (fst p)) kv)
      | JStr s \<Rightarrow> Inr (map (\<lambda>c. JStr [c]) s)
      | _ \<Rightarrow> Inl TypeError)"

text \<open>\<^verbatim>\<open>Model(**x)\<close> needs a mapping for the keyword arguments.\<close>

definition py_kwargs :: "json \<Rightarrow> exc + (string \<times> json) list" where
  "py_kwargs x = (case x of JObj kv \<Rightarrow> Inr kv | _ \<Rightarrow> Inl TypeError)"

text \<open>
  The construction of a Pydantic model from keyword arguments. The model classes are
  declared in \<^verbatim>\<open>config.py\<close>; their validation is a parameter \<open>validate\<close>, which returns the
  model or \<open>None\<close> for a \<^verbatim>\<open>ValidationError\<close>.
\<close>

definition construct :: "((string \<times> json) list \<Rightarrow> 'm option) \<Rightarrow> json \<Rightarrow> exc + 'm" where
  "construct validate x =
     (case py_kwargs x of
        Inl e \<Rightarrow> Inl e
      | Inr kv \<Rightarrow> (case validate kv of None \<Rightarrow> Inl ValidationError | Some m \<Rightarrow> Inr m))"

text \<open>\<^verbatim>\<open>xs[:k] if len(xs) > k else xs\<close>, the truncation written out in three adapters.\<close>

definition first_n :: "nat \<Rightarrow> 'a list \<Rightarrow> 'a list" where
  "first_n k xs = (if length xs > k then take k xs else xs)"

section \<open>The environment and the state of a run\<close>

text \<open>
  \<^verbatim>\<open>datetime.now()\<close> is a number of seconds since 2016-01-01T00:00 (the \<^verbatim>\<open>base_date\<close>
  of the festival calculator, a Friday). The calendar date is the number of whole days
  since then, which is also \<^verbatim>\<open>(now - base_date).days\<close>, and names the cache file
  \<^verbatim>\<open>REPORT_PATH / f"{date}.png"\<close>.
\<close>

type_synonym datetime = int

definition date_of :: "datetime \<Rightarrow> int" where
  "date_of now = now div 86400"

definition weekday :: "datetime \<Rightarrow> nat" where
  "weekday now = nat ((date_of now + 4) mod 7)"

record response =
  status_code :: nat
  json_body :: "exc + json"
  xml_body :: "exc + xml"

text \<open>
  \<open>json_body\<close> is the result of \<^verbatim>\<open>res.json()\<close> and \<open>xml_body\<close> the result of
  \<^verbatim>\<open>ET.fromstring(res.text)\<close>: both parsers are library code and may raise.
\<close>

datatype outcome = Responds response | Raises exc

record Hitokoto =
  hitokoto :: string

record SixData =
  news :: "string list"

record AnimeItem =
  name :: string
  name_cn :: "string option"
  image_ref :: string

record Anime =
  items :: "AnimeItem list"

record report_data =
  data_festival :: "(int \<times> string) list"
  data_hitokoto :: string
  data_bili :: "json list"
  data_six :: "string list"
  data_anime :: "(string \<times> string) list"
  data_it :: "string option list"
  week_label :: ustr
  report_date :: int
  zh_date :: ustr

text \<open>
  What the module is given: the clock, the network, the two collaborators (the lunar
  calendar and the renderer) and the contents of \<^verbatim>\<open>config.py\<close>. The \<open>k\<close>-th reading of
  the clock and the answer to the \<open>k\<close>-th request are functions of \<open>k\<close>, so that a run is
  determined by its environment. \<open>chinese\<close> is
  \<^verbatim>\<open>ZhDate.from_datetime(now).chinese()\<close>, \<open>Inl\<close> when the conversion raises.
\<close>

record env =
  clock :: "nat \<Rightarrow> datetime"
  network :: "nat \<Rightarrow> string \<Rightarrow> outcome"
  chinese :: "datetime \<Rightarrow> exc + ustr"
  template_to_pic :: "report_data \<Rightarrow> exc + bytes"
  favs_arr :: "int list"
  favs_list :: "string list"
  Hitokoto_model :: "(string \<times> json) list \<Rightarrow> Hitokoto option"
  SixData_model :: "(string \<times> json) list \<Rightarrow> SixData option"
  Anime_model :: "(string \<times> json) list \<Rightarrow> Anime option"

text \<open>
  What a run leaves behind, in order: a request sent, a line logged by \<^verbatim>\<open>logger.error\<close>
  (URL and cause), a delay waited by the retry decorator.
\<close>

datatype event = Request string | Log string exc | Delay nat

text \<open>
  What a run changes: the files of the report directory (by calendar date), the number
  of clock readings, the number of requests sent and the trace of events.
\<close>

record world =
  files :: "int \<rightharpoonup> bytes"
  ticks :: nat
  sent :: nat
  trace :: "event list"

definition datetime_now :: "env \<Rightarrow> world \<Rightarrow> datetime \<times> world" where
  "datetime_now E w = (clock E (ticks w), w\<lparr>ticks := Suc (ticks w)\<rparr>)"

section \<open>The festival calculator\<close>

text \<open>
  The generator of lines 115-116, consumed by \<^verbatim>\<open>result.extend\<close>: for each \<open>j\<close> the
  threshold \<^verbatim>\<open>favs_arr[i + j]\<close>, then the label \<^verbatim>\<open>favs_list[favs_arr[i + j + 1]]\<close>. The
  first subscript out of range ends the call with \<^verbatim>\<open>IndexError\<close>.
\<close>

fun festival_pairs ::
  "int list \<Rightarrow> string list \<Rightarrow> int \<Rightarrow> nat \<Rightarrow> nat list \<Rightarrow> exc + (int \<times> string) list" where
  "festival_pairs arr lst n i [] = Inr []"
| "festival_pairs arr lst n i (j # js) =
     (case py_index arr (int (i + j)) of
        Inl e \<Rightarrow> Inl e
      | Inr t \<Rightarrow>
          (case py_index arr (int (i + j + 1)) of
             Inl e \<Rightarrow> Inl e
           | Inr k \<Rightarrow>
               (case py_index lst k of
                  Inl e \<Rightarrow> Inl e
                | Inr label \<Rightarrow>
                    (case festival_pairs arr lst n i js of
                       Inl e \<Rightarrow> Inl e
                     | Inr rest \<Rightarrow> Inr ((t - n, label) # rest)))))"

text \<open>
  The loop \<^verbatim>\<open>for i in range(0, len(favs_arr), 2)\<close> from position \<open>i\<close> on; the \<^verbatim>\<open>break\<close>
  is the branch without a recursive call.
\<close>

function festival_scan ::
  "int list \<Rightarrow> string list \<Rightarrow> int \<Rightarrow> nat \<Rightarrow> exc + (int \<times> string) list" where
  "festival_scan arr lst n i =
     (if i < length arr
      then (if arr ! i \<ge> n
            then festival_pairs arr lst n i [0, 2, 4, 6, 8, 10, 12]
            else festival_scan arr lst n (i + 2))
      else Inr [])"
  by pat_completeness auto
termination
  by (relation "measure (\<lambda>(arr, lst, n, i). length arr - i)") auto

declare festival_scan.simps [simp del]

definition festival_calculation :: "env \<Rightarrow> world \<Rightarrow> (exc + (int \<times> string) list) \<times> world" where
  "festival_calculation E w =
     (let (now, w1) = datetime_now E w;
          n = date_of now
      in (festival_scan (favs_arr E) (favs_list E) n 0, w1))"

section \<open>The resilient fetcher\<close>

text \<open>\<^verbatim>\<open>response.raise_for_status()\<close> of httpx: any status outside 2xx raises.\<close>

definition raise_for_status :: "response \<Rightarrow> exc + response" where
  "raise_for_status r =
     (if 200 \<le> status_code r \<and> status_code r < 300 then Inr r
      else Inl (HTTPStatusError (status_code r)))"

text \<open>
  The tuple \<^verbatim>\<open>(TimeoutException, ConnectError, HTTPStatusError)\<close>, which is both the
  \<^verbatim>\<open>except\<close> clause of line 42 and the argument of \<^verbatim>\<open>retry_if_exception_type\<close>.
\<close>

fun transient :: "exc \<Rightarrow> bool" where
  "transient TimeoutException = True"
| "transient ConnectError = True"
| "transient (HTTPStatusError code) = True"
| "transient e = False"

text \<open>
  Lines 39-40: the \<open>k\<close>-th request of the run is answered by the network, and
  \<^verbatim>\<open>raise_for_status\<close> checks the answer.
\<close>

definition request_once :: "env \<Rightarrow> nat \<Rightarrow> string \<Rightarrow> exc + response" where
  "request_once E k url =
     (case network E k url of
        Raises e \<Rightarrow> Inl e
      | Responds response \<Rightarrow> raise_for_status response)"

text \<open>
  One run of the body of \<^verbatim>\<open>AsyncHttpx.get\<close> (lines 37-44): the request is sent, the
  status is checked, and a failure of the three kinds is logged with the URL and the
  cause before it is raised again.
\<close>

definition get_body :: "env \<Rightarrow> string \<Rightarrow> world \<Rightarrow> (exc + response) \<times> world" where
  "get_body E url w =
     (let w1 = w\<lparr>sent := Suc (sent w), trace := trace w @ [Request url]\<rparr>
      in case request_once E (sent w) url of
           Inr response \<Rightarrow> (Inr response, w1)
         | Inl e \<Rightarrow>
             (if transient e then (Inl e, w1\<lparr>trace := trace w1 @ [Log url e]\<rparr>)
              else (Inl e, w1)))"

text \<open>
  The decorator \<^verbatim>\<open>@retry(stop=stop_after_attempt(3), wait=wait_fixed(1), retry=...)\<close>:
  tenacity's loop from attempt \<open>attempt_number\<close> on. An exception outside the retry
  condition is raised as it is; when the condition holds and the stop condition is
  reached, tenacity raises \<^verbatim>\<open>RetryError\<close> from the last exception (\<^verbatim>\<open>reraise\<close> is not
  set); otherwise it waits one unit and runs the body again.
\<close>

function retrying :: "env \<Rightarrow> string \<Rightarrow> nat \<Rightarrow> world \<Rightarrow> (exc + response) \<times> world" where
  "retrying E url attempt_number w =
     (let (r, w1) = get_body E url w
      in case r of
           Inr response \<Rightarrow> (Inr response, w1)
         | Inl e \<Rightarrow>
             (if \<not> transient e then (Inl e, w1)
              else if attempt_number \<ge> 3 then (Inl (RetryError e), w1)
              else retrying E url (attempt_number + 1) (w1\<lparr>trace := trace w1 @ [Delay 1]\<rparr>)))"
  by pat_completeness auto
termination
  by (relation "measure (\<lambda>(E, url, attempt_number, w). 3 - attempt_number)") auto

declare retrying.simps [simp del]

definition AsyncHttpx_get :: "env \<Rightarrow> string \<Rightarrow> world \<Rightarrow> (exc + response) \<times> world" where
  "AsyncHttpx_get E url w = retrying E url 1 w"

section \<open>The source adapters\<close>

definition hitokoto_url :: string where
  "hitokoto_url = ''https://v1.hitokoto.cn/?c=a''"

definition six_url :: string where
  "six_url = ''https://60s.viki.moe/?v2=1''"

definition bili_url :: string where
  "bili_url = ''https://s.search.bilibili.com/main/hotword''"

definition it_url :: string where
  "it_url = ''https://www.ithome.com/rss/''"

definition anime_url :: string where
  "anime_url = ''https://api.bgm.tv/calendar''"

definition get_hitokoto :: "env \<Rightarrow> world \<Rightarrow> (exc + string) \<times> world" where
  "get_hitokoto E w =
     (case AsyncHttpx_get E hitokoto_url w of
        (Inl e, w1) \<Rightarrow> (Inl e, w1)
      | (Inr res, w1) \<Rightarrow>
          (case json_body res of
             Inl e \<Rightarrow> (Inl e, w1)
           | Inr j \<Rightarrow>
               (case construct (Hitokoto_model E) j of
                  Inl e \<Rightarrow> (Inl e, w1)
                | Inr data \<Rightarrow> (Inr (hitokoto data), w1))))"

text \<open>The comprehension \<^verbatim>\<open>[item["keyword"] for item in ...]\<close> of line 133.\<close>

fun keyword_values :: "json list \<Rightarrow> exc + json list" where
  "keyword_values [] = Inr []"
| "keyword_values (item # rest) =
     (case py_getitem_str item ''keyword'' of
        Inl e \<Rightarrow> Inl e
      | Inr k \<Rightarrow> (case keyword_values rest of Inl e \<Rightarrow> Inl e | Inr ks \<Rightarrow> Inr (k # ks)))"

definition get_bili :: "env \<Rightarrow> world \<Rightarrow> (exc + json list) \<times> world" where
  "get_bili E w =
     (case AsyncHttpx_get E bili_url w of
        (Inl e, w1) \<Rightarrow> (Inl e, w1)
      | (Inr res, w1) \<Rightarrow>
          (case json_body res of
             Inl e \<Rightarrow> (Inl e, w1)
           | Inr data \<Rightarrow>
               (case py_getitem_str data ''list'' of
                  Inl e \<Rightarrow> (Inl e, w1)
                | Inr l \<Rightarrow>
                    (case py_iter l of
                       Inl e \<Rightarrow> (Inl e, w1)
                     | Inr elems \<Rightarrow> (keyword_values elems, w1)))))"

definition get_six :: "env \<Rightarrow> world \<Rightarrow> (exc + string list) \<times> world" where
  "get_six E w =
     (case AsyncHttpx_get E six_url w of
        (Inl e, w1) \<Rightarrow> (Inl e, w1)
      | (Inr res, w1) \<Rightarrow>
          (case json_body res of
             Inl e \<Rightarrow> (Inl e, w1)
           | Inr j \<Rightarrow>
               (case construct (SixData_model E) j of
                  Inl e \<Rightarrow> (Inl e, w1)
                | Inr data \<Rightarrow> (Inr (first_n 11 (news data)), w1))))"

text \<open>
  \<^verbatim>\<open>root.findall("./channel/item")\<close>: the \<^verbatim>\<open>item\<close> children of the \<^verbatim>\<open>channel\<close> children
  of the root, in document order. \<^verbatim>\<open>item.find("title")\<close>: the first child with that
  tag, or \<^verbatim>\<open>None\<close>.
\<close>

definition findall_channel_item :: "xml \<Rightarrow> xml list" where
  "findall_channel_item root =
     concat (map (\<lambda>channel. filter (\<lambda>e. tag e = ''item'') (children channel))
                 (filter (\<lambda>e. tag e = ''channel'') (children root)))"

definition find_child :: "string \<Rightarrow> xml \<Rightarrow> xml option" where
  "find_child t element = List.find (\<lambda>e. tag e = t) (children element)"

text \<open>The loop of lines 148-151, with the list \<^verbatim>\<open>titles\<close> it appends to.\<close>

fun collect_titles :: "xml list \<Rightarrow> string option list \<Rightarrow> string option list" where
  "collect_titles [] titles = titles"
| "collect_titles (item # rest) titles =
     (case find_child ''title'' item of
        None \<Rightarrow> collect_titles rest titles
      | Some title_element \<Rightarrow> collect_titles rest (titles @ [text_of title_element]))"

definition get_it :: "env \<Rightarrow> world \<Rightarrow> (exc + string option list) \<times> world" where
  "get_it E w =
     (case AsyncHttpx_get E it_url w of
        (Inl e, w1) \<Rightarrow> (Inl e, w1)
      | (Inr res, w1) \<Rightarrow>
          (case xml_body res of
             Inl e \<Rightarrow> (Inl e, w1)
           | Inr root \<Rightarrow>
               (Inr (first_n 11 (collect_titles (findall_channel_item root) [])), w1)))"

text \<open>\<^verbatim>\<open>data.name_cn or data.name\<close>: \<^verbatim>\<open>None\<close> and the empty string are both false.\<close>

definition name_cn_or_name :: "AnimeItem \<Rightarrow> string" where
  "name_cn_or_name data =
     (case name_cn data of
        None \<Rightarrow> name data
      | Some s \<Rightarrow> (if s = [] then name data else s))"

text \<open>The generator of line 165: a pair of name and image for each item, in order.\<close>

definition anime_rows :: "Anime \<Rightarrow> (string \<times> string) list" where
  "anime_rows a = map (\<lambda>data. (name_cn_or_name data, image_ref data)) (items a)"

text \<open>The expression \<^verbatim>\<open>Anime(**res.json()[k])\<close> of lines 161 and 163.\<close>

definition anime_at :: "env \<Rightarrow> response \<Rightarrow> int \<Rightarrow> exc + Anime" where
  "anime_at E res k =
     (case json_body res of
        Inl e \<Rightarrow> Inl e
      | Inr j \<Rightarrow>
          (case py_getitem_int j k of
             Inl e \<Rightarrow> Inl e
           | Inr x \<Rightarrow> construct (Anime_model E) x))"

definition get_anime :: "env \<Rightarrow> world \<Rightarrow> (exc + (string \<times> string) list) \<times> world" where
  "get_anime E w =
     (case AsyncHttpx_get E anime_url w of
        (Inl e, w1) \<Rightarrow> (Inl e, w1)
      | (Inr res, w1) \<Rightarrow>
          (let (now, w2) = datetime_now E w1;
               week = int (weekday now);
               tried = anime_at E res week;
               anime = (if tried = Inl IndexError then anime_at E res (- 1) else tried)
           in case anime of
                Inl e \<Rightarrow> (Inl e, w2)
              | Inr a \<Rightarrow> (Inr (first_n 8 (anime_rows a)), w2)))"

section \<open>The report assembler and the daily cache\<close>

text \<open>\<^verbatim>\<open>save\<close>: the file of the date read from the clock at that moment is written.\<close>

definition save :: "env \<Rightarrow> bytes \<Rightarrow> world \<Rightarrow> world" where
  "save E data w =
     (let (now, w1) = datetime_now E w
      in w1\<lparr>files := (files w1)(date_of now \<mapsto> data)\<rparr>)"

text \<open>The class attribute \<^verbatim>\<open>week\<close>; the labels are the code points of the seven characters.\<close>

definition week :: "(nat \<times> ustr) list" where
  "week = [(0, [0x4E00]), (1, [0x4E8C]), (2, [0x4E09]), (3, [0x56DB]),
           (4, [0x4E94]), (5, [0x516D]), (6, [0x65E5])]"

text \<open>\<^verbatim>\<open>str.split()\<close> without argument: the maximal runs of characters that are not white space.\<close>

definition is_space :: "nat \<Rightarrow> bool" where
  "is_space c =
     ((0x09 \<le> c \<and> c \<le> 0x0D) \<or> (0x1C \<le> c \<and> c \<le> 0x20) \<or> c = 0x85 \<or> c = 0xA0 \<or>
      c = 0x1680 \<or> (0x2000 \<le> c \<and> c \<le> 0x200A) \<or> c = 0x2028 \<or> c = 0x2029 \<or>
      c = 0x202F \<or> c = 0x205F \<or> c = 0x3000)"

fun split_from :: "ustr \<Rightarrow> ustr \<Rightarrow> ustr list" where
  "split_from cur [] = (if cur = [] then [] else [cur])"
| "split_from cur (c # cs) =
     (if is_space c
      then (if cur = [] then split_from [] cs else cur # split_from [] cs)
      else split_from (cur @ [c]) cs)"

definition py_split :: "ustr \<Rightarrow> ustr list" where
  "py_split s = split_from [] s"

text \<open>\<^verbatim>\<open>zhdata.chinese().split()[0][5:]\<close> of line 90.\<close>

definition zh_fragment :: "ustr \<Rightarrow> exc + ustr" where
  "zh_fragment s =
     (case py_index (py_split s) 0 of Inl e \<Rightarrow> Inl e | Inr token \<Rightarrow> Inr (drop 5 token))"

definition get_report_image :: "env \<Rightarrow> world \<Rightarrow> (exc + bytes) \<times> world" where
  "get_report_image E w =
     (let (now, w0) = datetime_now E w
      in case files w0 (date_of now) of
           Some cached \<Rightarrow> (Inr cached, w0)
         | None \<Rightarrow>
     (case chinese E now of
        Inl e \<Rightarrow> (Inl e, w0)
      | Inr zhdata \<Rightarrow>
     (case festival_calculation E w0 of
        (Inl e, w1) \<Rightarrow> (Inl e, w1)
      | (Inr festival, w1) \<Rightarrow>
     (case get_hitokoto E w1 of
        (Inl e, w2) \<Rightarrow> (Inl e, w2)
      | (Inr quote, w2) \<Rightarrow>
     (case get_bili E w2 of
        (Inl e, w3) \<Rightarrow> (Inl e, w3)
      | (Inr bili, w3) \<Rightarrow>
     (case get_six E w3 of
        (Inl e, w4) \<Rightarrow> (Inl e, w4)
      | (Inr six, w4) \<Rightarrow>
     (case get_anime E w4 of
        (Inl e, w5) \<Rightarrow> (Inl e, w5)
      | (Inr anime, w5) \<Rightarrow>
     (case get_it E w5 of
        (Inl e, w6) \<Rightarrow> (Inl e, w6)
      | (Inr it, w6) \<Rightarrow>
     (case map_of week (weekday now) of
        None \<Rightarrow> (Inl KeyError, w6)
      | Some label \<Rightarrow>
     (case zh_fragment zhdata of
        Inl e \<Rightarrow> (Inl e, w6)
      | Inr fragment \<Rightarrow>
     (case template_to_pic E
             \<lparr>data_festival = festival, data_hitokoto = quote, data_bili = bili,
              data_six = six, data_anime = anime, data_it = it, week_label = label,
              report_date = date_of now, zh_date = fragment\<rparr> of
        Inl e \<Rightarrow> (Inl e, w6)
      | Inr image_bytes \<Rightarrow> (Inr image_bytes, save E image_bytes w6))))))))))))"

section \<open>Notions of the specification\<close>

text \<open>
  The first index reached by the scan (the even ones) whose threshold is at least \<open>n\<close>,
  and the case that the scan reaches no such index.
\<close>

definition first_match :: "int list \<Rightarrow> int \<Rightarrow> nat \<Rightarrow> bool" where
  "first_match arr n i =
     (even i \<and> i < length arr \<and> n \<le> arr ! i \<and> (\<forall>k \<in> {0..<i}. even k \<longrightarrow> arr ! k < n))"

definition no_match :: "int list \<Rightarrow> int \<Rightarrow> bool" where
  "no_match arr n = (\<forall>k \<in> {0..<length arr}. even k \<longrightarrow> arr ! k < n)"

text \<open>
  The titles of a feed as the specification words them: each \<^verbatim>\<open>channel/item\<close> entry in
  document order gives the text of its \<^verbatim>\<open>title\<close> element, and an entry without one gives
  nothing.
\<close>

definition titles_in_document_order :: "xml \<Rightarrow> string option list" where
  "titles_in_document_order root =
     map (\<lambda>item. text_of (the (find_child ''title'' item)))
         (filter (\<lambda>item. find_child ''title'' item \<noteq> None) (findall_channel_item root))"

text \<open>The events of the attempts that were retried: request, log line, delay of one unit.\<close>

definition retried :: "string \<Rightarrow> exc list \<Rightarrow> event list" where
  "retried url es = concat (map (\<lambda>e. [Request url, Log url e, Delay 1]) es)"

text \<open>
  What the retry policy allows as the result of a call in world \<open>w\<close>: the attempts \<open>es\<close>
  failed with an exception of the three kinds and were retried, and the next attempt
  ended the call, by its response, by an exception of another kind, or as attempt number
  \<open>limit\<close>.
\<close>

definition policy_outcome ::
  "env \<Rightarrow> string \<Rightarrow> world \<Rightarrow> nat \<Rightarrow> exc list \<Rightarrow> (exc + response) \<times> world \<Rightarrow> bool" where
  "policy_outcome E url w limit es result =
     ((\<forall>j \<in> {0..<length es}.
          request_once E (sent w + j) url = Inl (es ! j) \<and> transient (es ! j)) \<and>
      (let w' = w\<lparr>sent := sent w + length es + 1, trace := trace w @ retried url es @ [Request url]\<rparr>
       in case request_once E (sent w + length es) url of
            Inr response \<Rightarrow> length es < limit \<and> result = (Inr response, w')
          | Inl e \<Rightarrow>
              if transient e
              then length es + 1 = limit \<and>
                   result = (Inl (RetryError e), w'\<lparr>trace := trace w' @ [Log url e]\<rparr>)
              else length es < limit \<and> result = (Inl e, w')))"

section \<open>Environments for concrete runs\<close>

definition fresh_world :: world where
  "fresh_world = \<lparr>files = Map.empty, ticks = 0, sent = 0, trace = []\<rparr>"

text \<open>An environment without network: every request fails to connect.\<close>

definition offline_env :: env where
  "offline_env =
     \<lparr>clock = (\<lambda>k. 0), network = (\<lambda>k url. Raises ConnectError),
      chinese = (\<lambda>now. Inl TypeError), template_to_pic = (\<lambda>data. Inl RenderError),
      favs_arr = [], favs_list = [],
      Hitokoto_model = (\<lambda>kv. None), SixData_model = (\<lambda>kv. None),
      Anime_model = (\<lambda>kv. None)\<rparr>"

text \<open>A festival table of ten entries, thresholds 10, 20, ..., 100, and three labels.\<close>

definition sample_favs_arr :: "int list" where
  "sample_favs_arr = [10, 0, 20, 1, 30, 2, 40, 0, 50, 1, 60, 2, 70, 0, 80, 1, 90, 2, 100, 0]"

definition festival_env :: "int \<Rightarrow> env" where
  "festival_env day =
     offline_env\<lparr>clock := (\<lambda>k. day * 86400 + 3600), favs_arr := sample_favs_arr,
                 favs_list := [''New Year'', ''Spring'', ''Autumn'']\<rparr>"

text \<open>A network that times out twice and then answers.\<close>

definition ok_response :: response where
  "ok_response = \<lparr>status_code = 200, json_body = Inr JNull, xml_body = Inl ParseError\<rparr>"

definition flaky_env :: env where
  "flaky_env = offline_env\<lparr>network := (\<lambda>k url. if k < 2 then Raises TimeoutException else Responds ok_response)\<rparr>"

text \<open>
  A network that answers every adapter at once, with the schemas of \<^verbatim>\<open>config.py\<close> as the
  specification describes them: twelve trending keywords, fifteen news entries, an anime
  calendar of three days (one, no and nine items), and a feed of thirteen entries, one of
  them without a title.
\<close>

definition json_response :: "json \<Rightarrow> response" where
  "json_response j = \<lparr>status_code = 200, json_body = Inr j, xml_body = Inl ParseError\<rparr>"

definition xml_response :: "xml \<Rightarrow> response" where
  "xml_response x = \<lparr>status_code = 200, json_body = Inl JSONDecodeError, xml_body = Inr x\<rparr>"

definition sample_hitokoto :: json where
  "sample_hitokoto = JObj [(''id'', JNum 1), (''hitokoto'', JStr ''Stay hungry'')]"

definition sample_bili :: json where
  "sample_bili =
     JObj [(''code'', JNum 0),
           (''list'', JArr (map (\<lambda>c. JObj [(''keyword'', JStr [c])]) ''abcdefghijkl''))]"

definition sample_six :: json where
  "sample_six = JObj [(''data'', JObj [(''news'', JArr (map (\<lambda>c. JStr [c]) ''ABCDEFGHIJKLMNO''))])]"

definition sample_item :: "char \<Rightarrow> json" where
  "sample_item c =
     JObj [(''name'', JStr [c]), (''name_cn'', JStr (if c = CHR ''b'' then [] else [c, c])),
           (''image'', JStr [c, CHR ''.'', CHR ''p''])]"

definition sample_anime :: json where
  "sample_anime =
     JArr [JObj [(''items'', JArr [sample_item CHR ''a''])],
           JObj [(''items'', JArr [])],
           JObj [(''items'', JArr (map sample_item ''abcdefghi''))]]"

definition sample_entry :: "char \<Rightarrow> xml" where
  "sample_entry c =
     Element ''item'' None
       (if c = CHR ''x'' then [Element ''link'' (Some ''l'') []]
        else [Element ''link'' (Some ''l'') [], Element ''title'' (Some [c]) []])"

definition sample_rss :: xml where
  "sample_rss =
     Element ''rss'' None
       [Element ''channel'' None
          (Element ''title'' (Some ''feed'') [] # map sample_entry ''abxcdefghijkl'')]"

definition sample_network :: "nat \<Rightarrow> string \<Rightarrow> outcome" where
  "sample_network k url =
     (if url = hitokoto_url then Responds (json_response sample_hitokoto)
      else if url = bili_url then Responds (json_response sample_bili)
      else if url = six_url then Responds (json_response sample_six)
      else if url = anime_url then Responds (json_response sample_anime)
      else if url = it_url then Responds (xml_response sample_rss)
      else Raises ConnectError)"

definition sample_Hitokoto :: "(string \<times> json) list \<Rightarrow> Hitokoto option" where
  "sample_Hitokoto kv =
     (case map_of kv ''hitokoto'' of Some (JStr s) \<Rightarrow> Some \<lparr>hitokoto = s\<rparr> | _ \<Rightarrow> None)"

fun json_strings :: "json list \<Rightarrow> string list option" where
  "json_strings [] = Some []"
| "json_strings (JStr s # rest) = map_option (\<lambda>ss. s # ss) (json_strings rest)"
| "json_strings (x # rest) = None"

definition sample_SixData :: "(string \<times> json) list \<Rightarrow> SixData option" where
  "sample_SixData kv =
     (case map_of kv ''data'' of
        Some (JObj d) \<Rightarrow>
          (case map_of d ''news'' of
             Some (JArr xs) \<Rightarrow> map_option (\<lambda>ss. \<lparr>news = ss\<rparr>) (json_strings xs)
           | _ \<Rightarrow> None)
      | _ \<Rightarrow> None)"

definition sample_AnimeItem :: "json \<Rightarrow> AnimeItem option" where
  "sample_AnimeItem x =
     (case x of
        JObj kv \<Rightarrow>
          (case (map_of kv ''name'', map_of kv ''name_cn'', map_of kv ''image'') of
             (Some (JStr n), Some (JStr c), Some (JStr i)) \<Rightarrow>
               Some \<lparr>name = n, name_cn = Some c, image_ref = i\<rparr>
           | _ \<Rightarrow> None)
      | _ \<Rightarrow> None)"

definition sample_Anime :: "(string \<times> json) list \<Rightarrow> Anime option" where
  "sample_Anime kv =
     (case map_of kv ''items'' of
        Some (JArr xs) \<Rightarrow> map_option (\<lambda>is. \<lparr>items = is\<rparr>) (those (map sample_AnimeItem xs))
      | _ \<Rightarrow> None)"

definition sample_lunar :: ustr where
  "sample_lunar = [0x4E8C, 0x96F6, 0x4E8C, 0x56DB, 0x5E74, 0x6B63, 0x6708, 0x521D, 0x4E00,
                   0x20, 0x7532, 0x8FB0, 0x5E74]"

definition sample_render :: "report_data \<Rightarrow> exc + bytes" where
  "sample_render data =
     Inr [0x89, 0x50, 0x4E, 0x47, of_nat (length (data_festival data)),
          of_nat (length (data_bili data)), of_nat (length (data_six data)),
          of_nat (length (data_anime data)), of_nat (length (data_it data))]"

definition sample_env :: "int \<Rightarrow> env" where
  "sample_env day =
     \<lparr>clock = (\<lambda>k. day * 86400 + 3600 + int k), network = sample_network,
      chinese = (\<lambda>now. Inr sample_lunar), template_to_pic = sample_render,
      favs_arr = sample_favs_arr, favs_list = [''New Year'', ''Spring'', ''Autumn''],
      Hitokoto_model = sample_Hitokoto, SixData_model = sample_SixData,
      Anime_model = sample_Anime\<rparr>"

text \<open>A calendar service that answers with an empty array.\<close>

definition empty_calendar_env :: env where
  "empty_calendar_env = offline_env\<lparr>network := (\<lambda>k url. Responds (json_response (JArr [])))\<rparr>"

text \<open>The same services, with a schema that rejects the aggregate feed.\<close>

definition no_news_env :: env where
  "no_news_env = (sample_env 0)\<lparr>SixData_model := (\<lambda>kv. None)\<rparr>"

section \<open>Python subscripts and the festival scan\<close>

lemma py_index_nat: "py_index xs (int k) = (if k < length xs then Inr (xs ! k) else Inl IndexError)"
  by (simp add: py_index_def Let_def)

lemma py_index_error: "py_index xs k = Inl e \<Longrightarrow> e = IndexError"
  by (auto simp: py_index_def Let_def split: if_splits)

lemma festival_pairs_Cons:
  "festival_pairs arr lst n i (j # js) =
     (if i + j + 1 < length arr
      then (case py_index lst (arr ! (i + j + 1)) of
              Inl e \<Rightarrow> Inl e
            | Inr label \<Rightarrow>
                (case festival_pairs arr lst n i js of
                   Inl e \<Rightarrow> Inl e
                 | Inr rest \<Rightarrow> Inr ((arr ! (i + j) - n, label) # rest)))
      else Inl IndexError)"
  unfolding festival_pairs.simps py_index_nat by simp

lemma festival_pairs_error: "festival_pairs arr lst n i js = Inl e \<Longrightarrow> e = IndexError"
  by (induction js arbitrary: e)
     (auto simp: festival_pairs_Cons simp del: festival_pairs.simps(2)
           split: sum.splits if_splits dest: py_index_error)

lemma festival_pairs_in_range:
  "festival_pairs arr lst n i js = Inr r \<Longrightarrow> j \<in> set js \<Longrightarrow> i + j + 1 < length arr"
  by (induction js arbitrary: r)
     (auto simp: festival_pairs_Cons simp del: festival_pairs.simps(2)
           split: sum.splits if_splits)

lemma festival_pairs_value:
  "\<forall>j \<in> set js. i + j + 1 < length arr \<and> py_index lst (arr ! (i + j + 1)) = Inr (f j) \<Longrightarrow>
   festival_pairs arr lst n i js = Inr (map (\<lambda>j. (arr ! (i + j) - n, f j)) js)"
  by (induction js) (auto simp: festival_pairs_Cons simp del: festival_pairs.simps(2))

lemma festival_scan_skip:
  "s \<le> i \<Longrightarrow> even (i - s) \<Longrightarrow> i < length arr \<Longrightarrow> n \<le> arr ! i \<Longrightarrow>
   \<forall>k. s \<le> k \<and> k < i \<and> even (k - s) \<longrightarrow> arr ! k < n \<Longrightarrow>
   festival_scan arr lst n s = festival_pairs arr lst n i [0, 2, 4, 6, 8, 10, 12]"
proof (induction arr lst n s rule: festival_scan.induct)
  case (1 arr lst n s)
  show ?case
  proof (cases "s = i")
    case True
    with "1.prems" show ?thesis by (simp add: festival_scan.simps [of arr lst n i])
  next
    case False
    with "1.prems" have lt: "s + 2 \<le> i"
    proof -
      from "1.prems" False have "s < i" by simp
      moreover have "i - s \<noteq> 1" using "1.prems"(2) by (metis odd_one)
      ultimately show ?thesis by arith
    qed
    have small: "arr ! s < n" using "1.prems" False by auto
    have sl: "s < length arr" using "1.prems" by simp
    have "festival_scan arr lst n (s + 2) = festival_pairs arr lst n i [0, 2, 4, 6, 8, 10, 12]"
    proof (rule "1.IH")
      show "s < length arr" by (rule sl)
      show "\<not> n \<le> arr ! s" using small by simp
      show "s + 2 \<le> i" by (rule lt)
      show "even (i - (s + 2))" using "1.prems" lt by simp
      show "i < length arr" using "1.prems" by simp
      show "n \<le> arr ! i" using "1.prems" by simp
      show "\<forall>k. s + 2 \<le> k \<and> k < i \<and> even (k - (s + 2)) \<longrightarrow> arr ! k < n"
        using "1.prems" by auto
    qed
    then show ?thesis using sl small by (simp add: festival_scan.simps [of arr lst n s])
  qed
qed

lemma festival_scan_none:
  "\<forall>k. s \<le> k \<and> k < length arr \<and> even (k - s) \<longrightarrow> arr ! k < n \<Longrightarrow>
   festival_scan arr lst n s = Inr []"
proof (induction arr lst n s rule: festival_scan.induct)
  case (1 arr lst n s)
  show ?case
  proof (cases "s < length arr")
    case True
    have small: "arr ! s < n" using "1.prems" True by auto
    have "festival_scan arr lst n (s + 2) = Inr []"
      using True small "1.prems" by (intro "1.IH") auto
    then show ?thesis using True small by (simp add: festival_scan.simps [of arr lst n s])
  next
    case False
    then show ?thesis by (simp add: festival_scan.simps [of arr lst n s])
  qed
qed

lemma festival_scan_first_match:
  assumes "first_match arr n i"
  shows "festival_scan arr lst n 0 = festival_pairs arr lst n i [0, 2, 4, 6, 8, 10, 12]"
  using assms by (intro festival_scan_skip) (auto simp: first_match_def)

lemma festival_scan_no_match:
  assumes "no_match arr n"
  shows "festival_scan arr lst n 0 = Inr []"
  using assms by (intro festival_scan_none) (auto simp: no_match_def)

lemma festival_calculation_eq:
  "festival_calculation E w =
     (festival_scan (favs_arr E) (favs_list E) (date_of (clock E (ticks w))) 0,
      w\<lparr>ticks := Suc (ticks w)\<rparr>)"
  by (simp add: festival_calculation_def datetime_now_def)

section \<open>Properties of the festival calculator\<close>

text \<open>
  C2, as amended. Let \<open>n\<close> be the number of whole days from 2016-01-01 to the reading of
  the clock. If \<open>i\<close> is the first even index with \<open>favs_arr[i] \<ge> n\<close>, the table holds the
  fourteen elements from \<open>i\<close> on and each of the seven label indices is a valid subscript
  of \<open>favs_list\<close> (with labels \<open>labels\<close>), then \<open>festival_calculation\<close> returns exactly the
  seven pairs \<open>(favs_arr[i+2j] - n, favs_list[favs_arr[i+2j+1]])\<close>, \<open>j = 0..6\<close>, whatever
  follows in the table. If no even index has a threshold \<open>\<ge> n\<close>, it returns the empty
  list.
\<close>

theorem festival_calculation_window:
  assumes "n = date_of (clock E (ticks w))"
  shows "(first_match (favs_arr E) n i \<and> i + 14 \<le> length (favs_arr E) \<and>
          (\<forall>j \<in> {0..<7}. py_index (favs_list E) (favs_arr E ! (i + 2 * j + 1)) = Inr (labels ! j))
          \<longrightarrow> festival_calculation E w =
                (Inr (map (\<lambda>j. (favs_arr E ! (i + 2 * j) - n, labels ! j)) [0..<7]),
                 w\<lparr>ticks := Suc (ticks w)\<rparr>))
       \<and> (no_match (favs_arr E) n
          \<longrightarrow> festival_calculation E w = (Inr [], w\<lparr>ticks := Suc (ticks w)\<rparr>))"
proof (intro conjI impI)
  assume h: "first_match (favs_arr E) n i \<and> i + 14 \<le> length (favs_arr E) \<and>
          (\<forall>j \<in> {0..<7}. py_index (favs_list E) (favs_arr E ! (i + 2 * j + 1)) = Inr (labels ! j))"
  let ?js = "map (\<lambda>j. 2 * j) [0..<7]"
  let ?f = "\<lambda>j. labels ! (j div 2)"
  have js: "[0, 2, 4, 6, 8, 10, 12] = ?js"
    by (simp add: upt_rec)
  have "\<forall>j \<in> set ?js. i + j + 1 < length (favs_arr E) \<and>
          py_index (favs_list E) (favs_arr E ! (i + j + 1)) = Inr (?f j)"
    using h by auto
  then have "festival_pairs (favs_arr E) (favs_list E) n i ?js =
      Inr (map (\<lambda>j. (favs_arr E ! (i + j) - n, ?f j)) ?js)"
    by (rule festival_pairs_value)
  also have "map (\<lambda>j. (favs_arr E ! (i + j) - n, ?f j)) ?js =
      map (\<lambda>j. (favs_arr E ! (i + 2 * j) - n, labels ! j)) [0..<7]"
    by (simp add: o_def)
  finally show "festival_calculation E w =
                (Inr (map (\<lambda>j. (favs_arr E ! (i + 2 * j) - n, labels ! j)) [0..<7]),
                 w\<lparr>ticks := Suc (ticks w)\<rparr>)"
    using h assms
    by (simp only: festival_calculation_eq festival_scan_first_match [of _ _ i] js)
next
  assume "no_match (favs_arr E) n"
  then show "festival_calculation E w = (Inr [], w\<lparr>ticks := Suc (ticks w)\<rparr>)"
    using assms by (simp add: festival_calculation_eq festival_scan_no_match)
qed

theorem festival_calculation_window_witness:
  "first_match sample_favs_arr 25 4 \<and>
   festival_calculation (festival_env 25) fresh_world =
     (Inr [(5, ''Autumn''), (15, ''New Year''), (25, ''Spring''), (35, ''Autumn''),
           (45, ''New Year''), (55, ''Spring''), (65, ''Autumn'')],
      fresh_world\<lparr>ticks := 1\<rparr>) \<and>
   no_match sample_favs_arr 101 \<and>
   festival_calculation (festival_env 101) fresh_world = (Inr [], fresh_world\<lparr>ticks := 1\<rparr>)"
proof -
  let ?labels = "[''Autumn'', ''New Year'', ''Spring'', ''Autumn'', ''New Year'', ''Spring'', ''Autumn'']"
  have n: "day = date_of (clock (festival_env day) (ticks fresh_world))" for day
    by (simp add: festival_env_def date_of_def)
  have arr: "favs_arr (festival_env day) = sample_favs_arr" for day
    by (simp add: festival_env_def)
  have m: "first_match sample_favs_arr 25 4"
    by code_simp
  have l: "\<forall>j \<in> {0..<7}. py_index (favs_list (festival_env 25))
              (favs_arr (festival_env 25) ! (4 + 2 * j + 1)) = Inr (?labels ! j)"
    by code_simp
  have z: "no_match sample_favs_arr 101"
    by code_simp
  have vals: "map (\<lambda>j. (sample_favs_arr ! (4 + 2 * j) - 25, ?labels ! j)) [0..<7] =
      [(5, ''Autumn''), (15, ''New Year''), (25, ''Spring''), (35, ''Autumn''),
           (45, ''New Year''), (55, ''Spring''), (65, ''Autumn'')]"
    by code_simp
  from festival_calculation_window [OF n, of 25 4 ?labels] m l
  have a: "festival_calculation (festival_env 25) fresh_world =
     (Inr [(5, ''Autumn''), (15, ''New Year''), (25, ''Spring''), (35, ''Autumn''),
           (45, ''New Year''), (55, ''Spring''), (65, ''Autumn'')], fresh_world\<lparr>ticks := Suc (ticks fresh_world)\<rparr>)"
    unfolding arr vals by (simp add: sample_favs_arr_def)
  from festival_calculation_window [OF n, of 101] z
  have b: "festival_calculation (festival_env 101) fresh_world =
     (Inr [], fresh_world\<lparr>ticks := Suc (ticks fresh_world)\<rparr>)"
    unfolding arr by simp
  from a b m z show ?thesis by (simp add: fresh_world_def)
qed

text \<open>
  C2 as it is stated has no condition on the table. On day 75 the first threshold
  \<open>\<ge> n\<close> is at index 14 of a table of 20 elements, and the call raises.
\<close>

theorem festival_calculation_window_missing:
  "first_match sample_favs_arr 75 14 \<and>
   festival_calculation (festival_env 75) fresh_world = (Inl IndexError, fresh_world\<lparr>ticks := 1\<rparr>)"
proof -
  have "first_match sample_favs_arr 75 14"
    by code_simp
  moreover have "festival_calculation (festival_env 75) fresh_world =
      (Inl IndexError, fresh_world\<lparr>ticks := 1\<rparr>)"
    by (simp add: festival_calculation_def datetime_now_def festival_env_def offline_env_def
        fresh_world_def date_of_def festival_scan.simps py_index_def sample_favs_arr_def)
  ultimately show ?thesis by simp
qed

text \<open>
  C10. If \<open>i\<close> is the first even index with \<open>favs_arr[i] \<ge> n\<close> and the table ends before
  index \<open>i + 13\<close>, then \<open>festival_calculation\<close> raises \<^verbatim>\<open>IndexError\<close> instead of returning
  a list.
\<close>

theorem festival_calculation_short_window:
  assumes "first_match (favs_arr E) (date_of (clock E (ticks w))) i"
    and "length (favs_arr E) < i + 14"
  shows "festival_calculation E w = (Inl IndexError, w\<lparr>ticks := Suc (ticks w)\<rparr>)"
proof -
  let ?n = "date_of (clock E (ticks w))"
  let ?r = "festival_pairs (favs_arr E) (favs_list E) ?n i [0, 2, 4, 6, 8, 10, 12]"
  have "?r = Inl IndexError"
  proof (cases ?r)
    case (Inl e)
    then show ?thesis using festival_pairs_error by blast
  next
    case (Inr r)
    then have "i + 12 + 1 < length (favs_arr E)"
      by (rule festival_pairs_in_range) simp
    with assms(2) show ?thesis by simp
  qed
  then show ?thesis
    using assms(1) by (simp add: festival_calculation_eq festival_scan_first_match [of _ _ i])
qed

theorem festival_calculation_short_window_witness:
  "first_match sample_favs_arr 85 16 \<and> length sample_favs_arr < 16 + 14 \<and>
   festival_calculation (festival_env 85) fresh_world = (Inl IndexError, fresh_world\<lparr>ticks := 1\<rparr>)"
proof -
  have m: "first_match (favs_arr (festival_env 85))
             (date_of (clock (festival_env 85) (ticks fresh_world))) 16"
    by code_simp
  have s: "length (favs_arr (festival_env 85)) < 16 + 14"
    by code_simp
  from festival_calculation_short_window [OF m s] m s show ?thesis
    by (simp add: fresh_world_def festival_env_def date_of_def)
qed

section \<open>Properties of the resilient fetcher\<close>

lemma retrying_step:
  "retrying E url k w =
     (case request_once E (sent w) url of
        Inr response \<Rightarrow>
          (Inr response, w\<lparr>sent := Suc (sent w), trace := trace w @ [Request url]\<rparr>)
      | Inl e \<Rightarrow>
          (if \<not> transient e
           then (Inl e, w\<lparr>sent := Suc (sent w), trace := trace w @ [Request url]\<rparr>)
           else if 3 \<le> k
           then (Inl (RetryError e),
                 w\<lparr>sent := Suc (sent w), trace := trace w @ [Request url, Log url e]\<rparr>)
           else retrying E url (k + 1)
                  (w\<lparr>sent := Suc (sent w),
                     trace := trace w @ [Request url, Log url e, Delay 1]\<rparr>)))"
  by (subst retrying.simps) (simp add: get_body_def Let_def split: sum.splits)

lemma retried_Cons: "retried url (e # es) = [Request url, Log url e, Delay 1] @ retried url es"
  by (simp add: retried_def)

lemma retrying_outcome:
  "1 \<le> k \<Longrightarrow> k \<le> 3 \<Longrightarrow> \<exists>es. policy_outcome E url w (4 - k) es (retrying E url k w)"
proof (induction E url k w rule: retrying.induct)
  case (1 E url k w)
  let ?o = "request_once E (sent w) url"
  show ?case
  proof (cases "\<exists>e. ?o = Inl e \<and> transient e \<and> k < 3")
    case False
    then have "policy_outcome E url w (4 - k) [] (retrying E url k w)"
      using "1.prems"
      by (subst retrying_step) (auto simp: policy_outcome_def retried_def split: sum.splits)
    then show ?thesis ..
  next
    case True
    then obtain e where e: "?o = Inl e" "transient e" "k < 3" by blast
    let ?w1 = "w\<lparr>sent := Suc (sent w), trace := trace w @ [Request url, Log url e, Delay 1]\<rparr>"
    have step: "retrying E url k w = retrying E url (k + 1) ?w1"
      using e by (subst retrying_step) simp
    have body: "get_body E url w = (Inl e, w\<lparr>sent := Suc (sent w), trace := trace w @ [Request url, Log url e]\<rparr>)"
      using e by (simp add: get_body_def Let_def)
    have "\<exists>es. policy_outcome E url (w\<lparr>sent := Suc (sent w), trace := trace w @ [Request url, Log url e]\<rparr>\<lparr>trace := trace (w\<lparr>sent := Suc (sent w), trace := trace w @ [Request url, Log url e]\<rparr>) @ [Delay 1]\<rparr>) (4 - (k + 1)) es
        (retrying E url (k + 1) (w\<lparr>sent := Suc (sent w), trace := trace w @ [Request url, Log url e]\<rparr>\<lparr>trace := trace (w\<lparr>sent := Suc (sent w), trace := trace w @ [Request url, Log url e]\<rparr>) @ [Delay 1]\<rparr>))"
      using e "1.prems" by (intro "1.IH" [OF body [symmetric] refl]) auto
    then obtain es where es: "policy_outcome E url ?w1 (4 - (k + 1)) es (retrying E url (k + 1) ?w1)"
      by auto
    have "policy_outcome E url w (4 - k) (e # es) (retrying E url k w)"
      unfolding step using es e "1.prems"
      by (auto simp: policy_outcome_def retried_Cons Let_def nth_Cons split: sum.splits nat.splits if_splits)
    then show ?thesis ..
  qed
qed

lemma AsyncHttpx_get_frame:
  assumes "AsyncHttpx_get E url w = (r, w')"
  shows "files w' = files w \<and> ticks w' = ticks w \<and> sent w \<le> sent w'"
proof -
  obtain es where "policy_outcome E url w 3 es (retrying E url 1 w)"
    using retrying_outcome [of 1 E url w] by auto
  with assms show ?thesis
    by (auto simp: policy_outcome_def AsyncHttpx_get_def Let_def split: sum.splits if_splits)
qed

text \<open>
  C3, as amended. \<open>AsyncHttpx.get(url)\<close> makes at most 3 attempts. Each attempt before
  the last failed with a timeout, a connection failure or an HTTP error status, was
  logged with the URL and the cause, and was followed by a delay of one unit. The last
  attempt ends the call: a response is returned; an exception of another kind is raised
  as it is, unlogged, whatever the attempt number; an exception of the three kinds ends
  the call only as the third attempt, is logged, and the call raises tenacity's
  \<^verbatim>\<open>RetryError\<close> carrying it.
\<close>

theorem AsyncHttpx_get_retry_policy:
  "\<exists>es. length es \<le> 2 \<and>
     (\<forall>j \<in> {0..<length es}.
         request_once E (sent w + j) url = Inl (es ! j) \<and> transient (es ! j)) \<and>
     (let w' = w\<lparr>sent := sent w + length es + 1,
                  trace := trace w @ retried url es @ [Request url]\<rparr>
      in case request_once E (sent w + length es) url of
           Inr response \<Rightarrow> AsyncHttpx_get E url w = (Inr response, w')
         | Inl e \<Rightarrow>
             if transient e
             then length es = 2 \<and>
                  AsyncHttpx_get E url w =
                    (Inl (RetryError e), w'\<lparr>trace := trace w' @ [Log url e]\<rparr>)
             else AsyncHttpx_get E url w = (Inl e, w'))"
proof -
  obtain es where "policy_outcome E url w 3 es (retrying E url 1 w)"
    using retrying_outcome [of 1 E url w] by auto
  then show ?thesis
    by (intro exI [of _ es])
       (auto simp: policy_outcome_def AsyncHttpx_get_def Let_def split: sum.splits if_splits)
qed

theorem AsyncHttpx_get_retry_policy_witness:
  "AsyncHttpx_get flaky_env it_url fresh_world =
     (Inr ok_response,
      fresh_world\<lparr>sent := 3,
                  trace := [Request it_url, Log it_url TimeoutException, Delay 1,
                            Request it_url, Log it_url TimeoutException, Delay 1,
                            Request it_url]\<rparr>)"
proof -
  have o: "request_once flaky_env k it_url =
      (if k < 2 then Inl TimeoutException else Inr ok_response)" for k
    by (simp add: request_once_def flaky_env_def offline_env_def raise_for_status_def
        ok_response_def)
  from AsyncHttpx_get_retry_policy [of flaky_env fresh_world it_url] obtain es where
    len: "length es \<le> 2" and
    pre: "\<forall>j \<in> {0..<length es}.
         request_once flaky_env (sent fresh_world + j) it_url = Inl (es ! j) \<and> transient (es ! j)" and
    fin: "(let w' = fresh_world\<lparr>sent := sent fresh_world + length es + 1,
                  trace := trace fresh_world @ retried it_url es @ [Request it_url]\<rparr>
      in case request_once flaky_env (sent fresh_world + length es) it_url of
           Inr response \<Rightarrow> AsyncHttpx_get flaky_env it_url fresh_world = (Inr response, w')
         | Inl e \<Rightarrow>
             if transient e
             then length es = 2 \<and>
                  AsyncHttpx_get flaky_env it_url fresh_world =
                    (Inl (RetryError e), w'\<lparr>trace := trace w' @ [Log it_url e]\<rparr>)
             else AsyncHttpx_get flaky_env it_url fresh_world = (Inl e, w'))"
    by blast
  have two: "length es = 2"
  proof (rule ccontr)
    assume "length es \<noteq> 2"
    with len have "length es < 2" by simp
    with fin show False by (simp add: o Let_def fresh_world_def)
  qed
  then obtain a b where es: "es = [a, b]"
    by (metis (no_types, opaque_lifting) One_nat_def Suc_1 length_0_conv length_Suc_conv)
  have "a = TimeoutException"
    using bspec [OF pre, of 0] by (simp add: es o fresh_world_def)
  moreover have "b = TimeoutException"
    using bspec [OF pre, of 1] by (simp add: es o fresh_world_def)
  ultimately show ?thesis using fin es
    by (simp add: o Let_def fresh_world_def retried_def)
qed

text \<open>
  C3 as it is stated lets the third failure itself propagate. Without network the call
  raises \<^verbatim>\<open>RetryError\<close>, not \<^verbatim>\<open>ConnectError\<close>.
\<close>

theorem AsyncHttpx_get_exhausted:
  "AsyncHttpx_get offline_env it_url fresh_world =
     (Inl (RetryError ConnectError),
      fresh_world\<lparr>sent := 3,
                  trace := [Request it_url, Log it_url ConnectError, Delay 1,
                            Request it_url, Log it_url ConnectError, Delay 1,
                            Request it_url, Log it_url ConnectError]\<rparr>) \<and>
   fst (AsyncHttpx_get offline_env it_url fresh_world) \<noteq> Inl ConnectError"
  by (simp add: AsyncHttpx_get_def retrying_step request_once_def offline_env_def fresh_world_def)

section \<open>Properties of the source adapters\<close>

lemma first_n_take: "first_n k xs = take k xs"
  by (simp add: first_n_def)

lemma collect_titles_append:
  "collect_titles entries titles =
     titles @ map (\<lambda>item. text_of (the (find_child ''title'' item)))
                  (filter (\<lambda>item. find_child ''title'' item \<noteq> None) entries)"
  by (induction entries arbitrary: titles) (auto split: option.splits)

lemma keyword_values_all:
  "list_all2 (\<lambda>item k. \<exists>fields. item = JObj fields \<and> map_of fields ''keyword'' = Some k) elems ks
   \<Longrightarrow> keyword_values elems = Inr ks"
  by (induction elems ks rule: list_all2_induct) (auto simp: py_getitem_str_def)

lemma keyword_values_length: "keyword_values elems = Inr ks \<Longrightarrow> length ks = length elems"
  by (induction elems arbitrary: ks) (auto split: sum.splits)

lemma construct_not_IndexError: "construct validate x \<noteq> Inl IndexError"
  by (auto simp: construct_def py_kwargs_def split: json.splits option.splits)

lemma py_index_last:
  "py_index xs (- 1) = (if xs = [] then Inl IndexError else Inr (last xs))"
proof (cases xs rule: rev_cases)
  case Nil
  then show ?thesis by (simp add: py_index_def)
next
  case (snoc ys y)
  then show ?thesis by (simp add: py_index_def Let_def)
qed

lemma anime_at_array:
  assumes "json_body res = Inr (JArr xs)"
  shows "anime_at E res k =
     (case py_index xs k of Inl e \<Rightarrow> Inl e | Inr x \<Rightarrow> construct (Anime_model E) x)"
  using assms by (simp add: anime_at_def py_getitem_int_def)

lemma fetch_sample:
  "url \<in> {hitokoto_url, bili_url, six_url, anime_url, it_url} \<Longrightarrow>
   AsyncHttpx_get (sample_env day) url w =
     (case sample_network 0 url of Responds r \<Rightarrow> Inr r | Raises e \<Rightarrow> Inl e,
      w\<lparr>sent := Suc (sent w), trace := trace w @ [Request url]\<rparr>)"
  by (auto simp: AsyncHttpx_get_def retrying_step request_once_def sample_env_def sample_network_def
      raise_for_status_def json_response_def xml_response_def)

lemma fetch_sample_bili:
  "AsyncHttpx_get (sample_env day) bili_url w =
     (Inr (json_response sample_bili), w\<lparr>sent := Suc (sent w), trace := trace w @ [Request bili_url]\<rparr>)"
  by (simp add: fetch_sample) (simp add: sample_network_def bili_url_def hitokoto_url_def)

lemma fetch_sample_six:
  "AsyncHttpx_get (sample_env day) six_url w =
     (Inr (json_response sample_six), w\<lparr>sent := Suc (sent w), trace := trace w @ [Request six_url]\<rparr>)"
  by (simp add: fetch_sample)
     (simp add: sample_network_def bili_url_def hitokoto_url_def six_url_def)

lemma fetch_sample_anime:
  "AsyncHttpx_get (sample_env day) anime_url w =
     (Inr (json_response sample_anime), w\<lparr>sent := Suc (sent w), trace := trace w @ [Request anime_url]\<rparr>)"
  by (simp add: fetch_sample)
     (simp add: sample_network_def bili_url_def hitokoto_url_def six_url_def anime_url_def)

lemma fetch_sample_it:
  "AsyncHttpx_get (sample_env day) it_url w =
     (Inr (xml_response sample_rss), w\<lparr>sent := Suc (sent w), trace := trace w @ [Request it_url]\<rparr>)"
  by (simp add: fetch_sample)
     (simp add: sample_network_def bili_url_def hitokoto_url_def six_url_def anime_url_def it_url_def)

lemma fetch_sample_hitokoto:
  "AsyncHttpx_get (sample_env day) hitokoto_url w =
     (Inr (json_response sample_hitokoto), w\<lparr>sent := Suc (sent w), trace := trace w @ [Request hitokoto_url]\<rparr>)"
  by (simp add: fetch_sample) (simp add: sample_network_def)

lemma get_anime_sample:
  "get_anime (sample_env 0) fresh_world =
     (Inr [(''aa'', ''a.p''), (''b'', ''b.p''), (''cc'', ''c.p''), (''dd'', ''d.p''),
           (''ee'', ''e.p''), (''ff'', ''f.p''), (''gg'', ''g.p''), (''hh'', ''h.p'')],
      \<lparr>files = Map.empty, ticks = 1, sent = 1, trace = [Request anime_url]\<rparr>)"
proof -
  have week: "weekday (clock (sample_env 0) 0) = 4"
    by (simp add: weekday_def date_of_def sample_env_def)
  have tried: "anime_at (sample_env 0) (json_response sample_anime) 4 = Inl IndexError"
    by (simp add: anime_at_def json_response_def sample_anime_def py_getitem_int_def py_index_def)
  have last: "anime_at (sample_env 0) (json_response sample_anime) (- 1) =
      construct sample_Anime (JObj [(''items'', JArr (map sample_item ''abcdefghi''))])"
    by (simp add: anime_at_def json_response_def sample_anime_def py_getitem_int_def py_index_def
        sample_env_def)
  have rows: "(case construct sample_Anime (JObj [(''items'', JArr (map sample_item ''abcdefghi''))]) of
              Inl e \<Rightarrow> (Inl e, w)
            | Inr a \<Rightarrow> (Inr (first_n 8 (anime_rows a)), w)) =
     (Inr [(''aa'', ''a.p''), (''b'', ''b.p''), (''cc'', ''c.p''), (''dd'', ''d.p''),
           (''ee'', ''e.p''), (''ff'', ''f.p''), (''gg'', ''g.p''), (''hh'', ''h.p'')], w)" for w :: world
    by (simp add: construct_def py_kwargs_def sample_Anime_def
        sample_AnimeItem_def sample_item_def first_n_def anime_rows_def name_cn_or_name_def)
  show ?thesis
    unfolding get_anime_def fetch_sample_anime
    by (simp add: datetime_now_def fresh_world_def week tried last rows del: list.map)
qed

text \<open>
  C8. For every XML body, \<open>get_it\<close> returns the text of the \<^verbatim>\<open>title\<close> element of each
  \<^verbatim>\<open>channel/item\<close> entry in document order; an entry without a \<^verbatim>\<open>title\<close> element
  contributes nothing. Only the first 11 titles are returned when there are more than
  11, otherwise all of them.
\<close>

theorem get_it_titles:
  assumes "AsyncHttpx_get E it_url w = (Inr res, w1)"
    and "xml_body res = Inr root"
  shows "get_it E w =
           (Inr (if 11 < length (titles_in_document_order root)
                 then take 11 (titles_in_document_order root)
                 else titles_in_document_order root), w1)"
  using assms
  by (simp add: get_it_def first_n_def collect_titles_append titles_in_document_order_def)

theorem get_it_titles_witness:
  "get_it (sample_env 0) fresh_world =
     (Inr [Some ''a'', Some ''b'', Some ''c'', Some ''d'', Some ''e'', Some ''f'', Some ''g'',
           Some ''h'', Some ''i'', Some ''j'', Some ''k''],
      \<lparr>files = Map.empty, ticks = 0, sent = 1, trace = [Request it_url]\<rparr>)"
proof -
  have x: "xml_body (xml_response sample_rss) = Inr sample_rss"
    by (simp add: xml_response_def)
  have t: "titles_in_document_order sample_rss =
      [Some ''a'', Some ''b'', Some ''c'', Some ''d'', Some ''e'', Some ''f'', Some ''g'',
       Some ''h'', Some ''i'', Some ''j'', Some ''k'', Some ''l'']"
    by (simp add: titles_in_document_order_def sample_rss_def findall_channel_item_def
        find_child_def sample_entry_def)
  from get_it_titles [OF fetch_sample_it x, of 0 fresh_world] show ?thesis
    unfolding t by (simp add: fresh_world_def)
qed

text \<open>
  C5. For every JSON body whose \<^verbatim>\<open>list\<close> field is an array of objects with a \<^verbatim>\<open>keyword\<close>
  field, \<open>get_bili\<close> returns the \<^verbatim>\<open>keyword\<close> value of every element in source order,
  as many as there are elements: nothing is cut at any length.
\<close>

theorem get_bili_untruncated:
  assumes "AsyncHttpx_get E bili_url w = (Inr res, w1)"
    and "json_body res = Inr (JObj body)"
    and "map_of body ''list'' = Some (JArr elems)"
    and "list_all2 (\<lambda>item k. \<exists>fields. item = JObj fields \<and> map_of fields ''keyword'' = Some k)
           elems ks"
  shows "get_bili E w = (Inr ks, w1) \<and> length ks = length elems"
  using assms keyword_values_all [OF assms(4)] list_all2_lengthD [OF assms(4)]
  by (simp add: get_bili_def py_getitem_str_def py_iter_def)

theorem get_bili_untruncated_witness:
  "get_bili (sample_env 0) fresh_world =
     (Inr [JStr ''a'', JStr ''b'', JStr ''c'', JStr ''d'', JStr ''e'', JStr ''f'', JStr ''g'',
           JStr ''h'', JStr ''i'', JStr ''j'', JStr ''k'', JStr ''l''],
      \<lparr>files = Map.empty, ticks = 0, sent = 1, trace = [Request bili_url]\<rparr>)"
proof -
  let ?elems = "map (\<lambda>c. JObj [(''keyword'', JStr [c])]) ''abcdefghijkl''"
  let ?ks = "map (\<lambda>c. JStr [c]) ''abcdefghijkl''"
  have j: "json_body (json_response sample_bili) = Inr (JObj [(''code'', JNum 0), (''list'', JArr ?elems)])"
    by (simp add: json_response_def sample_bili_def)
  have l: "map_of [(''code'', JNum 0), (''list'', JArr ?elems)] ''list'' = Some (JArr ?elems)"
    by simp
  have k: "list_all2 (\<lambda>item k. \<exists>fields. item = JObj fields \<and> map_of fields ''keyword'' = Some k)
             ?elems ?ks"
    unfolding list_all2_map1 list_all2_map2 list_all2_same by simp
  from get_bili_untruncated [OF fetch_sample_bili j l k, of 0 fresh_world] show ?thesis
    by (simp add: fresh_world_def)
qed

text \<open>
  C6. For every body that is a non-empty JSON array, \<open>get_anime\<close> takes the element at
  the index of the current weekday (Monday is 0) when that index is in range and the
  last element of the array otherwise; the selection does not fail with \<^verbatim>\<open>IndexError\<close>,
  however short the array is.
\<close>

theorem get_anime_selection:
  assumes "AsyncHttpx_get E anime_url w = (Inr res, w1)"
    and "json_body res = Inr (JArr xs)"
    and "xs \<noteq> []"
    and "day = weekday (clock E (ticks w1))"
  shows "get_anime E w =
           (case construct (Anime_model E) (if day < length xs then xs ! day else last xs) of
              Inl e \<Rightarrow> Inl e
            | Inr a \<Rightarrow> Inr (first_n 8 (anime_rows a)),
            w1\<lparr>ticks := Suc (ticks w1)\<rparr>)
         \<and> fst (get_anime E w) \<noteq> Inl IndexError"
proof (cases "day < length xs")
  case True
  then have "anime_at E res (int day) = construct (Anime_model E) (xs ! day)"
    by (simp add: anime_at_array [OF assms(2)] py_index_nat)
  with True assms show ?thesis
    by (auto simp: get_anime_def datetime_now_def Let_def construct_not_IndexError anime_rows_def
        split: sum.splits)
next
  case False
  then have "anime_at E res (int day) = Inl IndexError"
    by (simp add: anime_at_array [OF assms(2)] py_index_nat)
  moreover have "anime_at E res (- 1) = construct (Anime_model E) (last xs)"
    using assms(3) by (simp add: anime_at_array [OF assms(2)] py_index_last)
  ultimately show ?thesis using False assms
    by (auto simp: get_anime_def datetime_now_def Let_def construct_not_IndexError anime_rows_def
        split: sum.splits)
qed

theorem get_anime_selection_witness:
  "get_anime (sample_env 3) fresh_world =
     (Inr [(''aa'', ''a.p'')],
      \<lparr>files = Map.empty, ticks = 1, sent = 1, trace = [Request anime_url]\<rparr>) \<and>
   get_anime (sample_env 0) fresh_world =
     (Inr [(''aa'', ''a.p''), (''b'', ''b.p''), (''cc'', ''c.p''), (''dd'', ''d.p''),
           (''ee'', ''e.p''), (''ff'', ''f.p''), (''gg'', ''g.p''), (''hh'', ''h.p'')],
      \<lparr>files = Map.empty, ticks = 1, sent = 1, trace = [Request anime_url]\<rparr>)"
proof -
  let ?mon = "JObj [(''items'', JArr [sample_item CHR ''a''])]"
  let ?tue = "JObj [(''items'', JArr [])]"
  let ?wed = "JObj [(''items'', JArr (map sample_item ''abcdefghi''))]"
  have j: "json_body (json_response sample_anime) = Inr (JArr [?mon, ?tue, ?wed])"
    by (simp add: json_response_def sample_anime_def)
  have ne: "[?mon, ?tue, ?wed] \<noteq> []"
    by simp
  have monday: "0 = weekday (clock (sample_env 3)
      (ticks (fresh_world\<lparr>sent := Suc (sent fresh_world), trace := trace fresh_world @ [Request anime_url]\<rparr>)))"
    by (simp add: weekday_def date_of_def sample_env_def fresh_world_def)
  have friday: "4 = weekday (clock (sample_env 0)
      (ticks (fresh_world\<lparr>sent := Suc (sent fresh_world), trace := trace fresh_world @ [Request anime_url]\<rparr>)))"
    by (simp add: weekday_def date_of_def sample_env_def fresh_world_def)
  have m: "construct (Anime_model (sample_env 3)) ?mon =
      Inr \<lparr>items = [\<lparr>name = ''a'', name_cn = Some ''aa'', image_ref = ''a.p''\<rparr>]\<rparr>"
    by (simp add: construct_def py_kwargs_def sample_env_def sample_Anime_def sample_AnimeItem_def
        sample_item_def)
  have r1: "first_n 8 (anime_rows \<lparr>items = [\<lparr>name = ''a'', name_cn = Some ''aa'', image_ref = ''a.p''\<rparr>]\<rparr>) =
      [(''aa'', ''a.p'')]"
    by (simp add: first_n_def anime_rows_def name_cn_or_name_def)
  have f: "(case construct (Anime_model (sample_env 0)) ?wed of
              Inl e \<Rightarrow> Inl e
            | Inr a \<Rightarrow> Inr (first_n 8 (anime_rows a))) =
     Inr [(''aa'', ''a.p''), (''b'', ''b.p''), (''cc'', ''c.p''), (''dd'', ''d.p''),
           (''ee'', ''e.p''), (''ff'', ''f.p''), (''gg'', ''g.p''), (''hh'', ''h.p'')]"
    by (simp add: construct_def py_kwargs_def sample_env_def sample_Anime_def
        sample_AnimeItem_def sample_item_def first_n_def anime_rows_def name_cn_or_name_def)
  from get_anime_selection [OF fetch_sample_anime j ne monday]
  have a: "get_anime (sample_env 3) fresh_world =
     (Inr [(''aa'', ''a.p'')],
      \<lparr>files = Map.empty, ticks = 1, sent = 1, trace = [Request anime_url]\<rparr>)"
    by (simp add: m r1) (simp add: fresh_world_def)
  have sel: "(if 4 < length [?mon, ?tue, ?wed] then [?mon, ?tue, ?wed] ! 4
              else last [?mon, ?tue, ?wed]) = ?wed"
    by simp
  from get_anime_selection [OF fetch_sample_anime j ne friday]
  have b: "get_anime (sample_env 0) fresh_world =
     (Inr [(''aa'', ''a.p''), (''b'', ''b.p''), (''cc'', ''c.p''), (''dd'', ''d.p''),
           (''ee'', ''e.p''), (''ff'', ''f.p''), (''gg'', ''g.p''), (''hh'', ''h.p'')],
      \<lparr>files = Map.empty, ticks = 1, sent = 1, trace = [Request anime_url]\<rparr>)"
    unfolding sel f by (simp add: fresh_world_def)
  from a b show ?thesis by simp
qed

text \<open>
  C9. For a body that is an empty JSON array, \<open>get_anime\<close> raises \<^verbatim>\<open>IndexError\<close>: the
  access to the last element fails as well and nothing handles it.
\<close>

theorem get_anime_empty_array:
  assumes "AsyncHttpx_get E anime_url w = (Inr res, w1)"
    and "json_body res = Inr (JArr [])"
  shows "get_anime E w = (Inl IndexError, w1\<lparr>ticks := Suc (ticks w1)\<rparr>)"
proof -
  have "anime_at E res k = Inl IndexError" for k
    by (auto simp: anime_at_array [OF assms(2)] py_index_def)
  with assms show ?thesis
    by (simp add: get_anime_def datetime_now_def Let_def)
qed

theorem get_anime_empty_array_witness:
  "get_anime empty_calendar_env fresh_world =
     (Inl IndexError, \<lparr>files = Map.empty, ticks = 1, sent = 1, trace = [Request anime_url]\<rparr>)"
proof -
  have f: "AsyncHttpx_get empty_calendar_env anime_url fresh_world =
      (Inr (json_response (JArr [])),
       \<lparr>files = Map.empty, ticks = 0, sent = 1, trace = [Request anime_url]\<rparr>)"
    by (simp add: AsyncHttpx_get_def retrying_step request_once_def empty_calendar_env_def
        offline_env_def raise_for_status_def json_response_def fresh_world_def)
  have j: "json_body (json_response (JArr [])) = Inr (JArr [])"
    by (simp add: json_response_def)
  from get_anime_empty_array [OF f j] show ?thesis by simp
qed

text \<open>
  C4, as amended. The news adapter returns the first 11 of the titles it collected, the
  aggregate-feed adapter the first 11 of the news entries and the anime adapter the
  first 8 of the rows of the selected day, each in source order. The trending adapter
  returns one keyword for every element of the list: it has no bound.
\<close>

theorem adapters_truncate:
  "(AsyncHttpx_get E it_url w = (Inr res_it, w_it) \<and> xml_body res_it = Inr root \<longrightarrow>
      get_it E w = (Inr (take 11 (collect_titles (findall_channel_item root) [])), w_it))
   \<and> (AsyncHttpx_get E six_url w = (Inr res_six, w_six) \<and> json_body res_six = Inr j \<and>
        construct (SixData_model E) j = Inr six \<longrightarrow>
      get_six E w = (Inr (take 11 (news six)), w_six))
   \<and> (get_anime E w = (Inr rows, w_anime) \<longrightarrow>
      (\<exists>res w1 k a. AsyncHttpx_get E anime_url w = (Inr res, w1) \<and> anime_at E res k = Inr a \<and>
         rows = take 8 (anime_rows a)))
   \<and> (AsyncHttpx_get E bili_url w = (Inr res_bili, w_bili) \<and> json_body res_bili = Inr data \<and>
        py_getitem_str data ''list'' = Inr (JArr elems) \<and> keyword_values elems = Inr ks \<longrightarrow>
      get_bili E w = (Inr ks, w_bili) \<and> length ks = length elems)"
proof (intro conjI impI)
  assume "AsyncHttpx_get E it_url w = (Inr res_it, w_it) \<and> xml_body res_it = Inr root"
  then show "get_it E w = (Inr (take 11 (collect_titles (findall_channel_item root) [])), w_it)"
    by (simp add: get_it_def first_n_take)
next
  assume "AsyncHttpx_get E six_url w = (Inr res_six, w_six) \<and> json_body res_six = Inr j \<and>
        construct (SixData_model E) j = Inr six"
  then show "get_six E w = (Inr (take 11 (news six)), w_six)"
    by (simp add: get_six_def first_n_take)
next
  assume a: "get_anime E w = (Inr rows, w_anime)"
  obtain r w1 where f: "AsyncHttpx_get E anime_url w = (r, w1)"
    by (cases "AsyncHttpx_get E anime_url w")
  with a obtain res where r: "r = Inr res"
    by (cases r) (auto simp: get_anime_def)
  let ?day = "int (weekday (clock E (ticks w1)))"
  let ?k = "if anime_at E res ?day = Inl IndexError then - 1 else ?day"
  from a f r obtain b where "anime_at E res ?k = Inr b" "rows = take 8 (anime_rows b)"
    by (auto simp: get_anime_def datetime_now_def Let_def first_n_take split: sum.splits if_splits)
  with f r show "\<exists>res w1 k a. AsyncHttpx_get E anime_url w = (Inr res, w1) \<and>
      anime_at E res k = Inr a \<and> rows = take 8 (anime_rows a)"
    by blast
next
  assume b: "AsyncHttpx_get E bili_url w = (Inr res_bili, w_bili) \<and> json_body res_bili = Inr data \<and>
        py_getitem_str data ''list'' = Inr (JArr elems) \<and> keyword_values elems = Inr ks"
  then show "get_bili E w = (Inr ks, w_bili)"
    by (simp add: get_bili_def py_iter_def)
  from b show "length ks = length elems"
    by (simp add: keyword_values_length)
qed

theorem adapters_truncate_witness:
  "fst (get_it (sample_env 0) fresh_world) =
     Inr [Some ''a'', Some ''b'', Some ''c'', Some ''d'', Some ''e'', Some ''f'', Some ''g'',
          Some ''h'', Some ''i'', Some ''j'', Some ''k''] \<and>
   fst (get_six (sample_env 0) fresh_world) =
     Inr [''A'', ''B'', ''C'', ''D'', ''E'', ''F'', ''G'', ''H'', ''I'', ''J'', ''K''] \<and>
   (\<exists>res w1 k a. AsyncHttpx_get (sample_env 0) anime_url fresh_world = (Inr res, w1) \<and>
        anime_at (sample_env 0) res k = Inr a \<and>
        [(''aa'', ''a.p''), (''b'', ''b.p''), (''cc'', ''c.p''), (''dd'', ''d.p''),
         (''ee'', ''e.p''), (''ff'', ''f.p''), (''gg'', ''g.p''), (''hh'', ''h.p'')] =
        take 8 (anime_rows a)) \<and>
   fst (get_bili (sample_env 0) fresh_world) =
     Inr [JStr ''a'', JStr ''b'', JStr ''c'', JStr ''d'', JStr ''e'', JStr ''f'', JStr ''g'',
          JStr ''h'', JStr ''i'', JStr ''j'', JStr ''k'', JStr ''l'']"
proof -
  let ?E = "sample_env 0"
  have it: "AsyncHttpx_get ?E it_url fresh_world =
      (Inr (xml_response sample_rss), fresh_world\<lparr>sent := 1, trace := [Request it_url]\<rparr>) \<and>
      xml_body (xml_response sample_rss) = Inr sample_rss"
    by (simp add: fetch_sample_it xml_response_def fresh_world_def)
  have titles: "take 11 (collect_titles (findall_channel_item sample_rss) []) =
      [Some ''a'', Some ''b'', Some ''c'', Some ''d'', Some ''e'', Some ''f'', Some ''g'',
       Some ''h'', Some ''i'', Some ''j'', Some ''k'']"
    by (simp add: sample_rss_def findall_channel_item_def find_child_def sample_entry_def)
  let ?six = "\<lparr>news = [''A'', ''B'', ''C'', ''D'', ''E'', ''F'', ''G'', ''H'', ''I'', ''J'', ''K'',
                       ''L'', ''M'', ''N'', ''O'']\<rparr>"
  have six1: "AsyncHttpx_get ?E six_url fresh_world =
      (Inr (json_response sample_six), fresh_world\<lparr>sent := 1, trace := [Request six_url]\<rparr>)"
    by (simp add: fetch_sample_six fresh_world_def)
  have six2: "json_body (json_response sample_six) = Inr sample_six"
    by (simp add: json_response_def)
  have six3: "construct (SixData_model ?E) sample_six = Inr ?six"
    by (simp add: construct_def py_kwargs_def sample_env_def sample_SixData_def sample_six_def)
  note six = conjI [OF six1 conjI [OF six2 six3]]
  let ?elems = "map (\<lambda>c. JObj [(''keyword'', JStr [c])]) ''abcdefghijkl''"
  let ?ks = "[JStr ''a'', JStr ''b'', JStr ''c'', JStr ''d'', JStr ''e'', JStr ''f'', JStr ''g'',
          JStr ''h'', JStr ''i'', JStr ''j'', JStr ''k'', JStr ''l'']"
  have bili: "AsyncHttpx_get ?E bili_url fresh_world =
      (Inr (json_response sample_bili), fresh_world\<lparr>sent := 1, trace := [Request bili_url]\<rparr>) \<and>
      json_body (json_response sample_bili) = Inr sample_bili \<and>
      py_getitem_str sample_bili ''list'' = Inr (JArr ?elems) \<and>
      keyword_values ?elems = Inr ?ks"
    by (simp add: fetch_sample_bili json_response_def fresh_world_def sample_bili_def
        py_getitem_str_def)
  let ?rows = "[(''aa'', ''a.p''), (''b'', ''b.p''), (''cc'', ''c.p''), (''dd'', ''d.p''),
           (''ee'', ''e.p''), (''ff'', ''f.p''), (''gg'', ''g.p''), (''hh'', ''h.p'')]"
  note inst = adapters_truncate [of ?E fresh_world "xml_response sample_rss" _ sample_rss
      "json_response sample_six" _ sample_six ?six ?rows _
      "json_response sample_bili" _ sample_bili ?elems ?ks]
  from inst it have 1: "fst (get_it ?E fresh_world) =
      Inr (take 11 (collect_titles (findall_channel_item sample_rss) []))"
    by simp
  from inst six have 2: "fst (get_six ?E fresh_world) = Inr (take 11 (news ?six))"
    by simp
  from inst get_anime_sample
  have 3: "\<exists>res w1 k a. AsyncHttpx_get ?E anime_url fresh_world = (Inr res, w1) \<and>
        anime_at ?E res k = Inr a \<and> ?rows = take 8 (anime_rows a)"
    by blast
  from inst bili have 4: "fst (get_bili ?E fresh_world) = Inr ?ks"
    by simp
  from 1 2 3 4 show ?thesis
    unfolding titles by simp
qed

text \<open>
  C4 as it is stated bounds the trending keywords by 11. A list of twelve keywords comes
  back whole.
\<close>

theorem get_bili_twelve_keywords:
  "fst (get_bili (sample_env 0) fresh_world) =
     Inr [JStr ''a'', JStr ''b'', JStr ''c'', JStr ''d'', JStr ''e'', JStr ''f'', JStr ''g'',
          JStr ''h'', JStr ''i'', JStr ''j'', JStr ''k'', JStr ''l'']"
  by (simp add: get_bili_def fetch_sample_bili json_response_def sample_bili_def
      py_getitem_str_def py_iter_def)

section \<open>Properties of the report assembler and the daily cache\<close>

lemma get_hitokoto_frame:
  "get_hitokoto E w = (r, w') \<Longrightarrow> files w' = files w \<and> ticks w' = ticks w"
  by (auto simp: get_hitokoto_def split: prod.splits sum.splits dest: AsyncHttpx_get_frame)

lemma get_bili_frame:
  "get_bili E w = (r, w') \<Longrightarrow> files w' = files w \<and> ticks w' = ticks w"
  by (auto simp: get_bili_def split: prod.splits sum.splits dest: AsyncHttpx_get_frame)

lemma get_six_frame:
  "get_six E w = (r, w') \<Longrightarrow> files w' = files w \<and> ticks w' = ticks w"
  by (auto simp: get_six_def split: prod.splits sum.splits dest: AsyncHttpx_get_frame)

lemma get_it_frame:
  "get_it E w = (r, w') \<Longrightarrow> files w' = files w \<and> ticks w' = ticks w"
  by (auto simp: get_it_def split: prod.splits sum.splits dest: AsyncHttpx_get_frame)

lemma get_anime_frame:
  "get_anime E w = (r, w') \<Longrightarrow> files w' = files w \<and> ticks w \<le> ticks w'"
  by (auto simp: get_anime_def datetime_now_def Let_def split: prod.splits sum.splits
      dest: AsyncHttpx_get_frame)

lemma festival_calculation_frame:
  "festival_calculation E w = (r, w') \<Longrightarrow> files w' = files w \<and> ticks w' = Suc (ticks w)"
  by (auto simp: festival_calculation_eq)

text \<open>The adapters in the order of the dictionary of lines 81-91, from the world \<open>w1\<close> on.\<close>

lemma get_report_image_hit:
  "files w (date_of (clock E (ticks w))) = Some cached \<Longrightarrow>
   get_report_image E w = (Inr cached, w\<lparr>ticks := Suc (ticks w)\<rparr>)"
  by (simp add: get_report_image_def datetime_now_def)

lemma get_report_image_error:
  assumes "get_report_image E w = (Inl e, w')"
  shows "files w' = files w"
proof (cases "files w (date_of (clock E (ticks w)))")
  case (Some cached)
  with assms show ?thesis by (simp add: get_report_image_hit)
next
  case None
  let ?w0 = "w\<lparr>ticks := Suc (ticks w)\<rparr>"
  from assms None show ?thesis
    unfolding get_report_image_def datetime_now_def Let_def
    by (auto split: prod.splits sum.splits option.splits
        dest!: festival_calculation_frame get_hitokoto_frame get_bili_frame get_six_frame
               get_anime_frame get_it_frame)
qed

lemma get_report_image_miss:
  assumes "get_report_image E w = (Inr img, w')"
    and "files w (date_of (clock E (ticks w))) = None"
  shows "ticks w < ticks w' - 1 \<and> 0 < ticks w' \<and>
         files w' = (files w)(date_of (clock E (ticks w' - 1)) \<mapsto> img)"
  using assms
  unfolding get_report_image_def datetime_now_def Let_def
  by (auto simp: save_def datetime_now_def split: prod.splits sum.splits option.splits
        dest!: festival_calculation_frame get_hitokoto_frame get_bili_frame get_six_frame
               get_anime_frame get_it_frame)

lemma date_of_mono: "a \<le> b \<Longrightarrow> date_of a \<le> date_of b"
  by (simp add: date_of_def zdiv_mono1)

lemma retrying_network:
  "network E = network E' \<Longrightarrow> retrying E url k w = retrying E' url k w"
proof (induction E url k w rule: retrying.induct)
  case (1 E url k w)
  have o: "request_once E n url = request_once E' n url" for n
    using "1.prems" by (simp add: request_once_def)
  have b: "get_body E url w = get_body E' url w"
    by (simp add: get_body_def o)
  show ?case
  proof (cases "\<exists>e. request_once E (sent w) url = Inl e \<and> transient e \<and> k < 3")
    case False
    then show ?thesis
      by (subst retrying_step, subst (2) retrying_step) (auto simp: o split: sum.splits)
  next
    case True
    then obtain e where e: "request_once E (sent w) url = Inl e" "transient e" "k < 3"
      by blast
    let ?w1 = "w\<lparr>sent := Suc (sent w), trace := trace w @ [Request url, Log url e]\<rparr>"
    have body: "(Inl e, ?w1) = get_body E url w"
      using e by (simp add: get_body_def Let_def)
    have "retrying E url (k + 1) (?w1\<lparr>trace := trace ?w1 @ [Delay 1]\<rparr>) =
          retrying E' url (k + 1) (?w1\<lparr>trace := trace ?w1 @ [Delay 1]\<rparr>)"
      using e "1.prems" by (intro "1.IH" [OF body refl]) auto
    then show ?thesis
      using e by (subst retrying_step, subst (2) retrying_step) (simp add: o [symmetric])
  qed
qed

lemma fetch_answer:
  assumes "network E = sample_network"
  shows "AsyncHttpx_get E url w = AsyncHttpx_get (sample_env 0) url w"
  unfolding AsyncHttpx_get_def
  by (rule retrying_network) (simp add: assms sample_env_def)

lemma get_hitokoto_sample:
  assumes "network E = sample_network" "Hitokoto_model E = sample_Hitokoto"
  shows "get_hitokoto E w =
     (Inr ''Stay hungry'', w\<lparr>sent := Suc (sent w), trace := trace w @ [Request hitokoto_url]\<rparr>)"
  unfolding get_hitokoto_def fetch_answer [OF assms(1)] fetch_sample_hitokoto
  by (simp add: json_response_def sample_hitokoto_def construct_def py_kwargs_def assms(2)
      sample_Hitokoto_def)

lemma get_bili_sample:
  assumes "network E = sample_network"
  shows "get_bili E w =
     (Inr [JStr ''a'', JStr ''b'', JStr ''c'', JStr ''d'', JStr ''e'', JStr ''f'', JStr ''g'',
           JStr ''h'', JStr ''i'', JStr ''j'', JStr ''k'', JStr ''l''],
      w\<lparr>sent := Suc (sent w), trace := trace w @ [Request bili_url]\<rparr>)"
  unfolding get_bili_def fetch_answer [OF assms(1)] fetch_sample_bili
  by (simp add: json_response_def sample_bili_def py_getitem_str_def py_iter_def)

lemma get_six_sample:
  assumes "network E = sample_network" "SixData_model E = sample_SixData"
  shows "get_six E w =
     (Inr [''A'', ''B'', ''C'', ''D'', ''E'', ''F'', ''G'', ''H'', ''I'', ''J'', ''K''],
      w\<lparr>sent := Suc (sent w), trace := trace w @ [Request six_url]\<rparr>)"
  unfolding get_six_def fetch_answer [OF assms(1)] fetch_sample_six
  by (simp add: json_response_def sample_six_def construct_def py_kwargs_def assms(2)
      sample_SixData_def first_n_def)

lemma get_six_invalid:
  assumes "network E = sample_network" "SixData_model E = (\<lambda>kv. None)"
  shows "get_six E w =
     (Inl ValidationError, w\<lparr>sent := Suc (sent w), trace := trace w @ [Request six_url]\<rparr>)"
  unfolding get_six_def fetch_answer [OF assms(1)] fetch_sample_six
  by (simp add: json_response_def sample_six_def construct_def py_kwargs_def assms(2))

lemma get_it_sample:
  assumes "network E = sample_network"
  shows "get_it E w =
     (Inr [Some ''a'', Some ''b'', Some ''c'', Some ''d'', Some ''e'', Some ''f'', Some ''g'',
           Some ''h'', Some ''i'', Some ''j'', Some ''k''],
      w\<lparr>sent := Suc (sent w), trace := trace w @ [Request it_url]\<rparr>)"
  unfolding get_it_def fetch_answer [OF assms(1)] fetch_sample_it
  by (simp add: xml_response_def sample_rss_def findall_channel_item_def find_child_def
      sample_entry_def first_n_def)

lemma get_anime_friday:
  assumes "network E = sample_network" "Anime_model E = sample_Anime"
    and "weekday (clock E (ticks w)) = 4"
  shows "get_anime E w =
     (Inr [(''aa'', ''a.p''), (''b'', ''b.p''), (''cc'', ''c.p''), (''dd'', ''d.p''),
           (''ee'', ''e.p''), (''ff'', ''f.p''), (''gg'', ''g.p''), (''hh'', ''h.p'')],
      w\<lparr>ticks := Suc (ticks w), sent := Suc (sent w), trace := trace w @ [Request anime_url]\<rparr>)"
proof -
  have tried: "anime_at E (json_response sample_anime) 4 = Inl IndexError"
    by (simp add: anime_at_def json_response_def sample_anime_def py_getitem_int_def py_index_def)
  have last: "anime_at E (json_response sample_anime) (- 1) =
      construct sample_Anime (JObj [(''items'', JArr (map sample_item ''abcdefghi''))])"
    by (simp add: anime_at_def json_response_def sample_anime_def py_getitem_int_def py_index_def
        assms(2))
  have rows: "(case construct sample_Anime (JObj [(''items'', JArr (map sample_item ''abcdefghi''))]) of
              Inl e \<Rightarrow> (Inl e, v)
            | Inr a \<Rightarrow> (Inr (first_n 8 (anime_rows a)), v)) =
     (Inr [(''aa'', ''a.p''), (''b'', ''b.p''), (''cc'', ''c.p''), (''dd'', ''d.p''),
           (''ee'', ''e.p''), (''ff'', ''f.p''), (''gg'', ''g.p''), (''hh'', ''h.p'')], v)" for v :: world
    by (simp add: construct_def py_kwargs_def sample_Anime_def
        sample_AnimeItem_def sample_item_def first_n_def anime_rows_def name_cn_or_name_def)
  show ?thesis
    unfolding get_anime_def fetch_answer [OF assms(1)] fetch_sample_anime
    by (simp add: datetime_now_def assms(3) tried last rows del: list.map)
qed

lemma festival_calculation_sample:
  assumes "favs_arr E = sample_favs_arr" "favs_list E = [''New Year'', ''Spring'', ''Autumn'']"
    and "date_of (clock E (ticks w)) = 0"
  shows "festival_calculation E w =
     (Inr [(10, ''New Year''), (20, ''Spring''), (30, ''Autumn''), (40, ''New Year''),
           (50, ''Spring''), (60, ''Autumn''), (70, ''New Year'')],
      w\<lparr>ticks := Suc (ticks w)\<rparr>)"
  by (simp add: festival_calculation_eq assms festival_scan.simps [of _ _ _ 0] sample_favs_arr_def
      py_index_def)

lemma sample_env_fields:
  "clock (sample_env day) k = day * 86400 + 3600 + int k"
  "network (sample_env day) = sample_network"
  "chinese (sample_env day) now = Inr sample_lunar"
  "template_to_pic (sample_env day) = sample_render"
  "favs_arr (sample_env day) = sample_favs_arr"
  "favs_list (sample_env day) = [''New Year'', ''Spring'', ''Autumn'']"
  "Hitokoto_model (sample_env day) = sample_Hitokoto"
  "SixData_model (sample_env day) = sample_SixData"
  "Anime_model (sample_env day) = sample_Anime"
  by (simp_all add: sample_env_def)

lemma no_news_env_fields:
  "clock no_news_env k = 3600 + int k"
  "network no_news_env = sample_network"
  "chinese no_news_env now = Inr sample_lunar"
  "favs_arr no_news_env = sample_favs_arr"
  "favs_list no_news_env = [''New Year'', ''Spring'', ''Autumn'']"
  "Hitokoto_model no_news_env = sample_Hitokoto"
  "SixData_model no_news_env = (\<lambda>kv. None)"
  by (simp_all add: no_news_env_def sample_env_def)

lemma zh_fragment_sample: "zh_fragment sample_lunar = Inr [0x6B63, 0x6708, 0x521D, 0x4E00]"
  by (simp add: zh_fragment_def py_split_def sample_lunar_def is_space_def py_index_def)

lemma get_report_image_sample:
  "get_report_image (sample_env 0) fresh_world =
     (Inr [0x89, 0x50, 0x4E, 0x47, 7, 12, 11, 8, 11],
      \<lparr>files = [0 \<mapsto> [0x89, 0x50, 0x4E, 0x47, 7, 12, 11, 8, 11]], ticks = 4, sent = 5,
       trace = [Request hitokoto_url, Request bili_url, Request six_url, Request anime_url,
                Request it_url]\<rparr>)"
proof -
  let ?E = "sample_env 0"
  have day: "date_of (clock ?E k) = 0" if "k < 10" for k
    using that by (simp add: sample_env_fields date_of_def)
  have friday: "weekday (clock ?E k) = 4" if "k < 10" for k
    using that by (simp add: weekday_def day)
  note adapters =
    get_hitokoto_sample [OF sample_env_fields(2) sample_env_fields(7)]
    get_bili_sample [OF sample_env_fields(2)]
    get_six_sample [OF sample_env_fields(2) sample_env_fields(8)]
    get_anime_friday [OF sample_env_fields(2) sample_env_fields(9)]
    get_it_sample [OF sample_env_fields(2)]
    festival_calculation_sample [OF sample_env_fields(5) sample_env_fields(6)]
  show ?thesis
    unfolding get_report_image_def
    by (simp add: datetime_now_def fresh_world_def day friday adapters sample_env_fields(3,4)
        zh_fragment_sample week_def sample_render_def save_def)
qed

text \<open>
  C1. Let a call of \<open>get_report_image\<close> return bytes, and let a second call happen on the
  same calendar date, later on a clock that does not run backwards, with the report
  directory as the first call left it. Then the second call sends no request and writes
  no log line, and returns the same bytes. So two calls on one date fetch at most once.
\<close>

theorem cache_idempotence:
  assumes first: "get_report_image E w = (Inr img, w1)"
    and clock: "mono (clock E)"
    and later: "ticks w1 \<le> ticks w2"
    and same_date: "date_of (clock E (ticks w2)) = date_of (clock E (ticks w))"
    and kept: "files w2 = files w1"
  shows "get_report_image E w2 = (Inr img, w2\<lparr>ticks := Suc (ticks w2)\<rparr>) \<and>
         sent (snd (get_report_image E w2)) = sent w2 \<and>
         trace (snd (get_report_image E w2)) = trace w2"
proof -
  let ?D = "date_of (clock E (ticks w))"
  have "files w2 ?D = Some img"
  proof (cases "files w ?D")
    case (Some cached)
    with first have "cached = img" "w1 = w\<lparr>ticks := Suc (ticks w)\<rparr>"
      by (simp_all add: get_report_image_hit)
    with Some kept show ?thesis by simp
  next
    case None
    from get_report_image_miss [OF first None]
    have t: "ticks w < ticks w1 - 1" "0 < ticks w1"
      and f: "files w1 = (files w)(date_of (clock E (ticks w1 - 1)) \<mapsto> img)"
      by simp_all
    have "clock E (ticks w) \<le> clock E (ticks w1 - 1)"
      using clock t by (simp add: monoD)
    moreover have "clock E (ticks w1 - 1) \<le> clock E (ticks w2)"
      using clock later by (simp add: monoD)
    ultimately have "date_of (clock E (ticks w1 - 1)) = ?D"
      using same_date date_of_mono [of "clock E (ticks w)" "clock E (ticks w1 - 1)"]
        date_of_mono [of "clock E (ticks w1 - 1)" "clock E (ticks w2)"]
      by simp
    with f kept show ?thesis by simp
  qed
  then have "get_report_image E w2 = (Inr img, w2\<lparr>ticks := Suc (ticks w2)\<rparr>)"
    using same_date by (simp add: get_report_image_hit)
  then show ?thesis by simp
qed

theorem cache_idempotence_witness:
  "get_report_image (sample_env 0) fresh_world =
     (Inr [0x89, 0x50, 0x4E, 0x47, 7, 12, 11, 8, 11],
      \<lparr>files = [0 \<mapsto> [0x89, 0x50, 0x4E, 0x47, 7, 12, 11, 8, 11]], ticks = 4, sent = 5,
       trace = [Request hitokoto_url, Request bili_url, Request six_url, Request anime_url,
                Request it_url]\<rparr>) \<and>
   get_report_image (sample_env 0)
     \<lparr>files = [0 \<mapsto> [0x89, 0x50, 0x4E, 0x47, 7, 12, 11, 8, 11]], ticks = 4, sent = 5,
      trace = [Request hitokoto_url, Request bili_url, Request six_url, Request anime_url,
               Request it_url]\<rparr> =
     (Inr [0x89, 0x50, 0x4E, 0x47, 7, 12, 11, 8, 11],
      \<lparr>files = [0 \<mapsto> [0x89, 0x50, 0x4E, 0x47, 7, 12, 11, 8, 11]], ticks = 5, sent = 5,
       trace = [Request hitokoto_url, Request bili_url, Request six_url, Request anime_url,
                Request it_url]\<rparr>)"
proof -
  let ?E = "sample_env 0"
  let ?w1 = "\<lparr>files = [0 \<mapsto> [0x89, 0x50, 0x4E, 0x47, 7, 12, 11, 8, 11 :: 8 word]], ticks = 4,
      sent = 5,
      trace = [Request hitokoto_url, Request bili_url, Request six_url, Request anime_url,
               Request it_url]\<rparr>"
  have clock: "mono (clock ?E)"
    by (simp add: mono_def sample_env_fields)
  have later: "ticks ?w1 \<le> ticks ?w1"
    by simp
  have same_date: "date_of (clock ?E (ticks ?w1)) = date_of (clock ?E (ticks fresh_world))"
    by (simp add: sample_env_fields date_of_def fresh_world_def)
  have kept: "files ?w1 = files ?w1"
    by simp
  from cache_idempotence [OF get_report_image_sample clock later same_date kept]
    get_report_image_sample
  show ?thesis by simp
qed

text \<open>
  C7. On a cache miss, a failure of any one adapter is the failure of the whole call:
  the adapters after it are not run and nothing is rendered. Whenever the call fails,
  the report directory is as it was; only a call that returns bytes writes a file, the
  one of the date of the write, holding those bytes.
\<close>

theorem no_partial_report:
  assumes miss: "files w (date_of (clock E (ticks w))) = None"
  shows "(get_report_image E w = (Inl e, w') \<longrightarrow> files w' = files w)
       \<and> (get_report_image E w = (Inr img, w') \<longrightarrow>
            files w' = (files w)(date_of (clock E (ticks w' - 1)) \<mapsto> img))
       \<and> (chinese E (clock E (ticks w)) = Inr zh \<and>
          festival_calculation E (w\<lparr>ticks := Suc (ticks w)\<rparr>) = (Inr festival, w1) \<longrightarrow>
            (get_hitokoto E w1 = (Inl e1, w2) \<longrightarrow> get_report_image E w = (Inl e1, w2)) \<and>
            (get_hitokoto E w1 = (Inr quote, w2) \<longrightarrow>
              (get_bili E w2 = (Inl e2, w3) \<longrightarrow> get_report_image E w = (Inl e2, w3)) \<and>
              (get_bili E w2 = (Inr bili, w3) \<longrightarrow>
                (get_six E w3 = (Inl e3, w4) \<longrightarrow> get_report_image E w = (Inl e3, w4)) \<and>
                (get_six E w3 = (Inr six, w4) \<longrightarrow>
                  (get_anime E w4 = (Inl e4, w5) \<longrightarrow> get_report_image E w = (Inl e4, w5)) \<and>
                  (get_anime E w4 = (Inr anime, w5) \<longrightarrow>
                    (get_it E w5 = (Inl e5, w6) \<longrightarrow>
                       get_report_image E w = (Inl e5, w6)))))))"
proof (intro conjI)
  show "get_report_image E w = (Inl e, w') \<longrightarrow> files w' = files w"
    using get_report_image_error by blast
  show "get_report_image E w = (Inr img, w') \<longrightarrow>
          files w' = (files w)(date_of (clock E (ticks w' - 1)) \<mapsto> img)"
    using get_report_image_miss [OF _ miss] by blast
  show "chinese E (clock E (ticks w)) = Inr zh \<and>
          festival_calculation E (w\<lparr>ticks := Suc (ticks w)\<rparr>) = (Inr festival, w1) \<longrightarrow>
            (get_hitokoto E w1 = (Inl e1, w2) \<longrightarrow> get_report_image E w = (Inl e1, w2)) \<and>
            (get_hitokoto E w1 = (Inr quote, w2) \<longrightarrow>
              (get_bili E w2 = (Inl e2, w3) \<longrightarrow> get_report_image E w = (Inl e2, w3)) \<and>
              (get_bili E w2 = (Inr bili, w3) \<longrightarrow>
                (get_six E w3 = (Inl e3, w4) \<longrightarrow> get_report_image E w = (Inl e3, w4)) \<and>
                (get_six E w3 = (Inr six, w4) \<longrightarrow>
                  (get_anime E w4 = (Inl e4, w5) \<longrightarrow> get_report_image E w = (Inl e4, w5)) \<and>
                  (get_anime E w4 = (Inr anime, w5) \<longrightarrow>
                    (get_it E w5 = (Inl e5, w6) \<longrightarrow>
                       get_report_image E w = (Inl e5, w6))))))"
    using miss by (simp add: get_report_image_def datetime_now_def)
qed

theorem no_partial_report_witness:
  "get_report_image no_news_env fresh_world =
     (Inl ValidationError,
      \<lparr>files = Map.empty, ticks = 2, sent = 3,
       trace = [Request hitokoto_url, Request bili_url, Request six_url]\<rparr>)"
proof -
  let ?E = no_news_env
  let ?festival = "[(10, ''New Year''), (20, ''Spring''), (30, ''Autumn''), (40, ''New Year''),
           (50, ''Spring''), (60, ''Autumn''), (70, ''New Year'')]"
  let ?w1 = "\<lparr>files = Map.empty, ticks = 2, sent = 0, trace = []\<rparr>"
  let ?w2 = "\<lparr>files = Map.empty, ticks = 2, sent = 1, trace = [Request hitokoto_url]\<rparr>"
  let ?w3 = "\<lparr>files = Map.empty, ticks = 2, sent = 2,
              trace = [Request hitokoto_url, Request bili_url]\<rparr>"
  let ?w4 = "\<lparr>files = Map.empty, ticks = 2, sent = 3,
              trace = [Request hitokoto_url, Request bili_url, Request six_url]\<rparr>"
  let ?ks = "[JStr ''a'', JStr ''b'', JStr ''c'', JStr ''d'', JStr ''e'', JStr ''f'', JStr ''g'',
           JStr ''h'', JStr ''i'', JStr ''j'', JStr ''k'', JStr ''l'']"
  have miss: "files fresh_world (date_of (clock ?E (ticks fresh_world))) = None"
    by (simp add: fresh_world_def)
  have zh: "chinese ?E (clock ?E (ticks fresh_world)) = Inr sample_lunar"
    by (simp add: no_news_env_fields)
  have festival: "festival_calculation ?E (fresh_world\<lparr>ticks := Suc (ticks fresh_world)\<rparr>) =
      (Inr ?festival, ?w1)"
    by (simp add: festival_calculation_sample [OF no_news_env_fields(4) no_news_env_fields(5)]
        no_news_env_fields(1) date_of_def fresh_world_def)
  have quote: "get_hitokoto ?E ?w1 = (Inr ''Stay hungry'', ?w2)"
    by (simp add: get_hitokoto_sample [OF no_news_env_fields(2) no_news_env_fields(6)])
  have bili: "get_bili ?E ?w2 = (Inr ?ks, ?w3)"
    by (simp add: get_bili_sample [OF no_news_env_fields(2)])
  have six: "get_six ?E ?w3 = (Inl ValidationError, ?w4)"
    by (simp add: get_six_invalid [OF no_news_env_fields(2) no_news_env_fields(7)])
  from no_partial_report [OF miss, of _ _ _ sample_lunar ?festival ?w1 _ ?w2 "''Stay hungry''"
      _ ?w3 ?ks ValidationError ?w4]
    zh festival quote bili six
  show ?thesis by blast
qed

end
